theory Spec2Isabelle
  imports Main "HOL-Library.AList"
begin

section \<open>JavaScript values\<close>

text \<open>
  The SDK (\<^verbatim>\<open>src/pa-sdk.js\<close>) is dynamically typed. Its values are modelled by one
  datatype: the primitives, plain objects (property lists in insertion order, keys
  distinct) and arrays. Numbers are integers: the only numbers the attribution code
  computes with are millisecond timestamps; every other number is a payload that is
  copied, never inspected, apart from its truthiness.
\<close>

datatype jsval =
    Undefined
  | Null
  | Bool bool
  | Num int
  | Str string
  | Obj "(string \<times> jsval) list"
  | Arr "jsval list"

type_synonym obj = "(string \<times> jsval) list"

text \<open>Property read \<^verbatim>\<open>o.k\<close> on a plain object: a missing property reads \<^verbatim>\<open>undefined\<close>.\<close>

definition js_prop :: "obj \<Rightarrow> string \<Rightarrow> jsval" where
  "js_prop ob k = (case map_of ob k of None \<Rightarrow> Undefined | Some v \<Rightarrow> v)"

text \<open>
  \<^verbatim>\<open>{...ob, k1: v1, k2: v2}\<close>: the properties of \<open>ob\<close>, then each listed property
  written in order (an existing key keeps its position, a new key is appended).
\<close>

definition assign :: "obj \<Rightarrow> obj \<Rightarrow> obj" where
  "assign ob kvs = foldl (\<lambda>acc kv. AList.update (fst kv) (snd kv) acc) ob kvs"

fun truthy :: "jsval \<Rightarrow> bool" where
  "truthy Undefined = False"
| "truthy Null = False"
| "truthy (Bool b) = b"
| "truthy (Num n) = (n \<noteq> 0)"
| "truthy (Str s) = (s \<noteq> [])"
| "truthy (Obj _) = True"
| "truthy (Arr _) = True"

text \<open>\<^verbatim>\<open>a || b\<close> returns one of its operands.\<close>

definition js_or :: "jsval \<Rightarrow> jsval \<Rightarrow> jsval" where
  "js_or a b = (if truthy a then a else b)"

datatype error =
    Error string
  | TypeError
  | SyntaxError
  | DOMException


subsection \<open>Conversions to string and to number\<close>

fun digits :: "nat \<Rightarrow> string" where
  "digits n =
     (if n < 10 then [''0123456789'' ! n]
      else digits (n div 10) @ [''0123456789'' ! (n mod 10)])"

fun join_comma :: "string list \<Rightarrow> string" where
  "join_comma [] = []"
| "join_comma [x] = x"
| "join_comma (x # y # zs) = x @ '','' @ join_comma (y # zs)"

text \<open>
  The conversion a template literal \<^verbatim>\<open>`${v}`\<close> applies to \<open>v\<close>. A number is rendered
  in decimal, which is what JavaScript prints for the integers it represents exactly
  (those below \<open>2\<^sup>5\<^sup>3\<close> in magnitude).
\<close>

fun js_toString :: "jsval \<Rightarrow> string" where
  "js_toString Undefined = ''undefined''"
| "js_toString Null = ''null''"
| "js_toString (Bool b) = (if b then ''true'' else ''false'')"
| "js_toString (Num n) = (if n < 0 then CHR ''-'' # digits (nat (- n)) else digits (nat n))"
| "js_toString (Str s) = s"
| "js_toString (Obj _) = ''[object Object]''"
| "js_toString (Arr xs) =
     join_comma (map (\<lambda>x. if x = Undefined \<or> x = Null then [] else js_toString x) xs)"

text \<open>
  The number a value converts to. A number is a decimal \<open>m \<times> 10\<^sup>k\<close>, an infinity
  (\<open>Infinite True\<close> is \<^verbatim>\<open>+Infinity\<close>) or \<^verbatim>\<open>NaN\<close>; the integers of the model are the
  decimals with exponent zero. A numeric string is taken at the exact value of its
  literal (JavaScript rounds that value to the nearest double).
\<close>

datatype js_number = NaN | Infinite bool | Decimal int int

definition digit_val :: "char \<Rightarrow> nat option" where
  "digit_val c =
     map_of (zip ''0123456789abcdef'' [0, 1, 2, 3, 4, 5, 6, 7, 8, 9, 10, 11, 12, 13, 14, 15]
             @ zip ''ABCDEF'' [10, 11, 12, 13, 14, 15]) c"

text \<open>The value of a string of digits in a radix, \<open>None\<close> when a character is not a digit of it.\<close>

fun radix_value :: "nat \<Rightarrow> string \<Rightarrow> nat \<Rightarrow> nat option" where
  "radix_value b [] acc = Some acc"
| "radix_value b (c # cs) acc =
     (case digit_val c of
        None \<Rightarrow> None
      | Some d \<Rightarrow> if d < b then radix_value b cs (b * acc + d) else None)"

definition is_digit :: "char \<Rightarrow> bool" where
  "is_digit c \<longleftrightarrow> c \<in> set ''0123456789''"

text \<open>The white space and line terminators of the ASCII range, which the conversion strips.\<close>

definition is_blank :: "char \<Rightarrow> bool" where
  "is_blank c \<longleftrightarrow> c \<in> set [CHR 0x09, CHR 0x0A, CHR 0x0B, CHR 0x0C, CHR 0x0D, CHR 0x20]"

definition trim :: "string \<Rightarrow> string" where
  "trim s = rev (dropWhile is_blank (rev (dropWhile is_blank s)))"

text \<open>
  The optional exponent part of a decimal literal, \<^verbatim>\<open>e\<close> or \<^verbatim>\<open>E\<close> and a signed integer:
  its value, zero when the part is absent, \<open>None\<close> when the rest of the string is
  anything else.
\<close>

definition exponent_part :: "string \<Rightarrow> int option" where
  "exponent_part s =
     (case s of
        [] \<Rightarrow> Some 0
      | c # t \<Rightarrow>
          if c = CHR ''e'' \<or> c = CHR ''E'' then
            (case t of
               [] \<Rightarrow> None
             | d # u \<Rightarrow>
                 if d = CHR ''+'' then (if u = [] then None else map_option int (radix_value 10 u 0))
                 else if d = CHR ''-''
                   then (if u = [] then None else map_option (\<lambda>n. - int n) (radix_value 10 u 0))
                 else map_option int (radix_value 10 t 0))
          else None)"

text \<open>
  An unsigned decimal literal: \<^verbatim>\<open>Infinity\<close>, or digits with an optional fraction and an
  optional exponent, at least one digit before or after the point.
\<close>

definition unsigned_decimal :: "string \<Rightarrow> js_number" where
  "unsigned_decimal s =
     (if s = ''Infinity'' then Infinite True
      else
        let whole = takeWhile is_digit s;
            rest = dropWhile is_digit s;
            pointed = (rest \<noteq> [] \<and> hd rest = CHR ''.'');
            fraction = (if pointed then takeWhile is_digit (tl rest) else []);
            rest2 = (if pointed then dropWhile is_digit (tl rest) else rest)
        in if whole = [] \<and> fraction = [] then NaN
           else
             (case (radix_value 10 (whole @ fraction) 0, exponent_part rest2) of
                (Some m, Some k) \<Rightarrow> Decimal (int m) (k - int (length fraction))
              | _ \<Rightarrow> NaN))"

definition radix_literal :: "nat \<Rightarrow> string \<Rightarrow> js_number" where
  "radix_literal b s =
     (if s = [] then NaN
      else case radix_value b s 0 of Some m \<Rightarrow> Decimal (int m) 0 | None \<Rightarrow> NaN)"

fun negate :: "js_number \<Rightarrow> js_number" where
  "negate NaN = NaN"
| "negate (Infinite b) = Infinite (\<not> b)"
| "negate (Decimal m k) = Decimal (- m) k"

text \<open>
  The number a string converts to: zero for a blank string, a signed decimal literal,
  or an unsigned binary, octal or hexadecimal integer literal, with blanks around it;
  \<^verbatim>\<open>NaN\<close> for every other string.
\<close>

definition str_to_number :: "string \<Rightarrow> js_number" where
  "str_to_number s =
     (let t = trim s
      in case t of
           [] \<Rightarrow> Decimal 0 0
         | c # u \<Rightarrow>
             if c = CHR ''+'' then unsigned_decimal u
             else if c = CHR ''-'' then negate (unsigned_decimal u)
             else if c = CHR ''0'' \<and> u \<noteq> [] \<and> hd u \<in> set ''xX'' then radix_literal 16 (tl u)
             else if c = CHR ''0'' \<and> u \<noteq> [] \<and> hd u \<in> set ''oO'' then radix_literal 8 (tl u)
             else if c = CHR ''0'' \<and> u \<noteq> [] \<and> hd u \<in> set ''bB'' then radix_literal 2 (tl u)
             else unsigned_decimal t)"

fun toNumber :: "jsval \<Rightarrow> js_number" where
  "toNumber Undefined = NaN"
| "toNumber Null = Decimal 0 0"
| "toNumber (Bool b) = Decimal (if b then 1 else 0) 0"
| "toNumber (Num n) = Decimal n 0"
| "toNumber (Str s) = str_to_number s"
| "toNumber (Obj _) = NaN"
| "toNumber (Arr xs) = str_to_number (js_toString (Arr xs))"

text \<open>\<^verbatim>\<open>v > n\<close> for an integer \<open>n\<close>: false when \<open>v\<close> converts to \<^verbatim>\<open>NaN\<close>.\<close>

definition js_gt :: "jsval \<Rightarrow> int \<Rightarrow> bool" where
  "js_gt v n =
     (case toNumber v of
        NaN \<Rightarrow> False
      | Infinite positive \<Rightarrow> positive
      | Decimal m k \<Rightarrow> if 0 \<le> k then n < m * 10 ^ nat k else n * 10 ^ nat (- k) < m)"

subsection \<open>JSON texts\<close>

text \<open>
  The strings held by the persistent stores are represented by what \<^verbatim>\<open>JSON.parse\<close>
  makes of them: a text is the JSON rendering of a value, or a string that is not JSON
  (kept verbatim), or the JSON rendering of a value cut short at its first \<^verbatim>\<open>;\<close>. On
  the last two \<^verbatim>\<open>JSON.parse\<close> throws: a \<^verbatim>\<open>;\<close> of a JSON text lies inside a string
  literal, which the cut leaves open. A cut text is not empty, since a JSON text that
  contains a string begins with a bracket or a quote.
\<close>

datatype stored_text = Malformed string | Json jsval | Cut jsval

fun text_truthy :: "stored_text \<Rightarrow> bool" where
  "text_truthy (Malformed s) = (s \<noteq> [])"
| "text_truthy (Json v) = True"
| "text_truthy (Cut v) = True"

fun JSON_parse :: "stored_text \<Rightarrow> error + jsval" where
  "JSON_parse (Malformed s) = Inl SyntaxError"
| "JSON_parse (Json v) = Inr v"
| "JSON_parse (Cut v) = Inl SyntaxError"

text \<open>
  \<^verbatim>\<open>JSON.stringify\<close> leaves out the properties whose value is \<^verbatim>\<open>undefined\<close> and
  writes \<^verbatim>\<open>null\<close> for an \<^verbatim>\<open>undefined\<close> array element.
\<close>

fun json_value :: "jsval \<Rightarrow> jsval" where
  "json_value (Obj ms) =
     Obj (map (\<lambda>kv. (fst kv, json_value (snd kv))) (filter (\<lambda>kv. snd kv \<noteq> Undefined) ms))"
| "json_value (Arr xs) = Arr (map (\<lambda>x. if x = Undefined then Null else json_value x) xs)"
| "json_value v = v"

definition JSON_stringify :: "jsval \<Rightarrow> stored_text" where
  "JSON_stringify v = Json (json_value v)"

text \<open>
  Whether the JSON rendering of a value contains a \<^verbatim>\<open>;\<close>: that is, whether one of its
  strings or property names does, since \<^verbatim>\<open>JSON.stringify\<close> writes the character as
  it is and uses none in its own punctuation.
\<close>

fun has_semicolon :: "jsval \<Rightarrow> bool" where
  "has_semicolon (Str s) = (CHR '';'' \<in> set s)"
| "has_semicolon (Obj ms) = (\<exists>kv \<in> set ms. CHR '';'' \<in> set (fst kv) \<or> has_semicolon (snd kv))"
| "has_semicolon (Arr xs) = (\<exists>x \<in> set xs. has_semicolon x)"
| "has_semicolon v = False"

section \<open>The SDK instance and its environment\<close>

text \<open>
  The part of \<^verbatim>\<open>this.config\<close> the attribution code reads, after the constructor
  has filled in the defaults.
\<close>

record config =
  cookiePrefix :: string
  storageType :: string
  attributionWindow :: int

text \<open>
  The instance: \<^verbatim>\<open>this.session.customerId\<close>, the in-memory cache
  \<^verbatim>\<open>this.attributionData\<close> (a \<^verbatim>\<open>Map\<close>), the queue \<^verbatim>\<open>this.pendingEvents\<close>, the two
  persistent stores of the page (\<^verbatim>\<open>localStorage\<close> and the cookies visible through
  \<^verbatim>\<open>document.cookie\<close>) and the lines written by \<^verbatim>\<open>console.error\<close>.
\<close>

record sdk =
  config :: config
  session_customerId :: jsval
  attributionData :: "string \<rightharpoonup> obj"
  pendingEvents :: "(string \<times> obj) list"
  localStorage :: "string \<rightharpoonup> stored_text"
  cookie :: "string \<rightharpoonup> stored_text"
  console_error :: "string list"

text \<open>
  What a call reads from the browser: the clock (\<^verbatim>\<open>Date.now()\<close> and its ISO
  rendering), the location, the referrer, the identifier \<^verbatim>\<open>_generateId\<close> draws,
  whether \<^verbatim>\<open>localStorage\<close> is defined, and whether the persistent store throws on a
  read, a write or a removal (storage disabled, quota exceeded). One call reads one
  clock value: the \<^verbatim>\<open>Date.now()\<close> calls of a method are taken to fall in the same
  millisecond.
\<close>

record env =
  now :: int
  isoTime :: string
  href :: string
  referrer :: string
  generatedId :: string
  localStorage_defined :: bool
  read_throws :: bool
  write_throws :: bool
  remove_throws :: bool

definition error_log :: "sdk \<Rightarrow> string \<Rightarrow> sdk" where
  "error_log s msg = s\<lparr>console_error := console_error s @ [msg]\<rparr>"

subsection \<open>The persistent store\<close>

text \<open>
  What the browser keeps of a value assigned through \<^verbatim>\<open>document.cookie\<close>: the
  assignment is the raw string \<^verbatim>\<open>name=value; expires=...\<close>, so the value ends at its
  first \<^verbatim>\<open>;\<close>.
\<close>

fun cookie_value :: "stored_text \<Rightarrow> stored_text" where
  "cookie_value (Json v) = (if has_semicolon v then Cut v else Json v)"
| "cookie_value (Malformed s) = Malformed (takeWhile (\<lambda>c. c \<noteq> CHR '';'') s)"
| "cookie_value (Cut v) = Cut v"

text \<open>
  \<^verbatim>\<open>new Date(t).toUTCString()\<close>, represented by the instant the printed date denotes:
  the date is printed to the second.
\<close>

definition toUTCString :: "int \<Rightarrow> int" where
  "toUTCString t = (t div 1000) * 1000"

text \<open>
  \<^verbatim>\<open>_setCookie\<close> assigns \<^verbatim>\<open>document.cookie\<close>: the browser keeps the cookie under
  its name, unless the expiry date is not in the future, in which case it drops the
  cookie of that name. \<^verbatim>\<open>_getCookie\<close> reads the cookie of a name, \<^verbatim>\<open>null\<close> when
  there is none. The jar is the set of cookies the browser holds at the time of the call:
  a cookie the browser has expired in the meantime is simply no longer in the jar. The
  argument \<open>expires\<close> is the instant the date string denotes. The name is taken as it is
  written, and the browser's limit on the size of a cookie is not modelled.
\<close>

definition setCookie :: "(string \<rightharpoonup> stored_text) \<Rightarrow> int \<Rightarrow> string \<Rightarrow> stored_text \<Rightarrow> int
    \<Rightarrow> (string \<rightharpoonup> stored_text)" where
  "setCookie jar today name val expires =
     (if expires \<le> today then jar(name := None) else jar(name \<mapsto> cookie_value val))"

definition getCookie :: "(string \<rightharpoonup> stored_text) \<Rightarrow> string \<Rightarrow> stored_text option" where
  "getCookie jar name = jar name"

text \<open>
  \<^verbatim>\<open>this.config.storageType === 'localStorage' && typeof localStorage !== 'undefined'\<close>
\<close>

definition uses_localStorage :: "sdk \<Rightarrow> env \<Rightarrow> bool" where
  "uses_localStorage s e \<longleftrightarrow> storageType (config s) = ''localStorage'' \<and> localStorage_defined e"

text \<open>
  The three storage blocks of the source, each the same choice between
  \<^verbatim>\<open>localStorage\<close> and the cookie fallback. \<open>Inl\<close> is the exception the enclosing
  \<^verbatim>\<open>try\<close> catches. The writing block passes the cookie the date
  \<^verbatim>\<open>new Date(attributionData.expiresAt).toUTCString()\<close>, the removing block the epoch.
\<close>

definition persistent_set :: "sdk \<Rightarrow> env \<Rightarrow> string \<Rightarrow> stored_text \<Rightarrow> int \<Rightarrow> error + sdk" where
  "persistent_set s e storageKey val expires =
     (if write_throws e then Inl DOMException
      else if uses_localStorage s e
        then Inr (s\<lparr>localStorage := (localStorage s)(storageKey \<mapsto> val)\<rparr>)
        else Inr (s\<lparr>cookie := setCookie (cookie s) (now e) storageKey val (toUTCString expires)\<rparr>))"

definition persistent_get :: "sdk \<Rightarrow> env \<Rightarrow> string \<Rightarrow> error + stored_text option" where
  "persistent_get s e storageKey =
     (if read_throws e then Inl DOMException
      else if uses_localStorage s e
        then Inr (localStorage s storageKey)
        else Inr (getCookie (cookie s) storageKey))"

definition persistent_remove :: "sdk \<Rightarrow> env \<Rightarrow> string \<Rightarrow> error + sdk" where
  "persistent_remove s e storageKey =
     (if remove_throws e then Inl DOMException
      else if uses_localStorage s e
        then Inr (s\<lparr>localStorage := (localStorage s)(storageKey := None)\<rparr>)
        else Inr (s\<lparr>cookie := setCookie (cookie s) (now e) storageKey (Malformed []) 0\<rparr>))"

section \<open>The attribution store\<close>

definition typeSuffix :: "bool \<Rightarrow> string" where
  "typeSuffix isSponsored = (if isSponsored then ''s'' else ''o'')"

text \<open>\<^verbatim>\<open>`${productRefId}_${typeSuffix}`\<close>\<close>

definition mapKey :: "jsval \<Rightarrow> bool \<Rightarrow> string" where
  "mapKey productRefId isSponsored = js_toString productRefId @ ''_'' @ typeSuffix isSponsored"

text \<open>
  \<^verbatim>\<open>`${this.config.cookiePrefix}attribution_${this.session.customerId}_${productRefId}_${typeSuffix}`\<close>
\<close>

definition storageKey :: "sdk \<Rightarrow> jsval \<Rightarrow> bool \<Rightarrow> string" where
  "storageKey s productRefId isSponsored =
     cookiePrefix (config s) @ ''attribution_'' @ js_toString (session_customerId s) @ ''_''
       @ js_toString productRefId @ ''_'' @ typeSuffix isSponsored"

text \<open>The object literal \<^verbatim>\<open>attributionData\<close> of \<^verbatim>\<open>_storeAttributionData\<close>.\<close>

definition attributionRecord :: "sdk \<Rightarrow> env \<Rightarrow> obj \<Rightarrow> obj" where
  "attributionRecord s e clickData =
     [(''clickId'', js_prop clickData ''clickId''),
      (''eventTime'', js_prop clickData ''eventTime''),
      (''currentUrl'', js_prop clickData ''currentUrl''),
      (''referralUrl'', js_prop clickData ''referralUrl''),
      (''actionType'', js_prop clickData ''actionType''),
      (''contextType'', js_prop clickData ''contextType''),
      (''redirectUrl'', js_prop clickData ''redirectUrl''),
      (''clickPosition'', js_prop clickData ''clickPosition''),
      (''slot'', js_prop clickData ''slot''),
      (''widgetId'', js_prop clickData ''widgetId''),
      (''routeId'', js_prop clickData ''routeId''),
      (''recommenderId'', js_prop clickData ''recommenderId''),
      (''campaignId'', js_prop clickData ''campaignId''),
      (''tacticId'', js_prop clickData ''tacticId''),
      (''tacticLabel'', js_prop clickData ''tacticLabel''),
      (''bannerId'', js_prop clickData ''bannerId''),
      (''placementId'', js_prop clickData ''placementId''),
      (''retailBoostCollectionCampaignId'', js_prop clickData ''retailBoostCollectionCampaignId''),
      (''adSetId'', js_prop clickData ''adSetId''),
      (''adSetVersion'', js_prop clickData ''adSetVersion''),
      (''costPerClick'', js_prop clickData ''costPerClick''),
      (''costPerAction'', js_prop clickData ''costPerAction''),
      (''costPerMille'', js_prop clickData ''costPerMille''),
      (''timeStamp'', js_prop clickData ''timeStamp''),
      (''hmacSalt'', js_prop clickData ''hmacSalt''),
      (''hmac'', js_prop clickData ''hmac''),
      (''supplierId'', js_prop clickData ''supplierId''),
      (''isSponsored'', js_prop clickData ''isSponsored''),
      (''storedAt'', Num (now e)),
      (''expiresAt'', Num (now e + attributionWindow (config s)))]"

text \<open>
  \<^verbatim>\<open>_storeAttributionData\<close>. The outcome \<open>Inl\<close> would be an exception leaving the
  method; the \<^verbatim>\<open>try\<close> block is the cache write followed by the persistent write, and
  its \<^verbatim>\<open>catch\<close> logs and returns.
\<close>

definition storeAttributionData :: "sdk \<Rightarrow> env \<Rightarrow> jsval \<Rightarrow> obj \<Rightarrow> (error + unit) \<times> sdk" where
  "storeAttributionData s e productRefId clickData =
     (if \<not> truthy (session_customerId s) \<or> \<not> truthy productRefId then (Inr (), s)
      else
        let isSponsored = truthy (js_prop clickData ''isSponsored'');
            attribution = attributionRecord s e clickData;
            s1 = s\<lparr>attributionData := (attributionData s)(mapKey productRefId isSponsored \<mapsto> attribution)\<rparr>
        in case persistent_set s1 e (storageKey s productRefId isSponsored)
                  (JSON_stringify (Obj attribution)) (now e + attributionWindow (config s)) of
             Inr s2 \<Rightarrow> (Inr (), s2)
           | Inl err \<Rightarrow> (Inr (), error_log s1 ''Failed to store attribution data:''))"

text \<open>
  One iteration of the \<^verbatim>\<open>types.forEach\<close> of \<^verbatim>\<open>_cleanupExpiredAttributionData\<close>: the
  cache entry is deleted, then the persistent entry inside its own \<^verbatim>\<open>try\<close>.
\<close>

definition cleanupType :: "env \<Rightarrow> jsval \<Rightarrow> sdk \<Rightarrow> jsval \<Rightarrow> sdk" where
  "cleanupType e productRefId s type =
     (let s1 = s\<lparr>attributionData := (attributionData s)(mapKey productRefId (truthy type) := None)\<rparr>
      in case persistent_remove s1 e (storageKey s productRefId (truthy type)) of
           Inr s2 \<Rightarrow> s2
         | Inl err \<Rightarrow> error_log s1 ''Failed to cleanup expired attribution data:'')"

text \<open>
  \<^verbatim>\<open>_cleanupExpiredAttributionData(productRefId, isSponsored = null)\<close>: the default
  applies to an \<^verbatim>\<open>undefined\<close> argument, and \<^verbatim>\<open>null\<close> selects both channels.
\<close>

definition cleanupExpiredAttributionData :: "sdk \<Rightarrow> env \<Rightarrow> jsval \<Rightarrow> jsval \<Rightarrow> sdk" where
  "cleanupExpiredAttributionData s e productRefId isSponsored =
     (if \<not> truthy (session_customerId s) then s
      else
        let types = (if isSponsored = Undefined \<or> isSponsored = Null
                     then [Bool True, Bool False] else [isSponsored])
        in foldl (cleanupType e productRefId) s types)"

text \<open>
  The \<^verbatim>\<open>try\<close> block of \<^verbatim>\<open>_getAttributionDataFor\<close>, reading the persistent store.
  \<^verbatim>\<open>JSON.parse\<close> throws on a malformed text and \<^verbatim>\<open>attributionData.expiresAt\<close>
  throws on a parsed \<^verbatim>\<open>null\<close>; both reach the \<^verbatim>\<open>catch\<close>, which logs. A parsed
  value other than an object has no \<^verbatim>\<open>expiresAt\<close>, so the comparison is false.
\<close>

definition getStoredAttribution :: "sdk \<Rightarrow> env \<Rightarrow> jsval \<Rightarrow> bool \<Rightarrow> obj option \<times> sdk" where
  "getStoredAttribution s e productRefId isSponsored =
     (case persistent_get s e (storageKey s productRefId isSponsored) of
        Inl err \<Rightarrow> (None, error_log s ''Failed to retrieve attribution data:'')
      | Inr None \<Rightarrow> (None, s)
      | Inr (Some storedData) \<Rightarrow>
          if \<not> text_truthy storedData then (None, s)
          else
            (case JSON_parse storedData of
               Inl err \<Rightarrow> (None, error_log s ''Failed to retrieve attribution data:'')
             | Inr Undefined \<Rightarrow> (None, error_log s ''Failed to retrieve attribution data:'')
             | Inr Null \<Rightarrow> (None, error_log s ''Failed to retrieve attribution data:'')
             | Inr (Obj attribution) \<Rightarrow>
                 if js_gt (js_prop attribution ''expiresAt'') (now e)
                 then (Some attribution,
                       s\<lparr>attributionData :=
                           (attributionData s)(mapKey productRefId isSponsored \<mapsto> attribution)\<rparr>)
                 else (None, cleanupExpiredAttributionData s e productRefId (Bool isSponsored))
             | Inr _ \<Rightarrow> (None, cleanupExpiredAttributionData s e productRefId (Bool isSponsored))))"

text \<open>\<^verbatim>\<open>_getAttributionDataFor\<close>: the memory cache first, then the persistent store.\<close>

definition getAttributionDataFor :: "sdk \<Rightarrow> env \<Rightarrow> jsval \<Rightarrow> bool \<Rightarrow> obj option \<times> sdk" where
  "getAttributionDataFor s e productRefId isSponsored =
     (case attributionData s (mapKey productRefId isSponsored) of
        Some data \<Rightarrow>
          if js_gt (js_prop data ''expiresAt'') (now e) then (Some data, s)
          else getStoredAttribution
                 (s\<lparr>attributionData := (attributionData s)(mapKey productRefId isSponsored := None)\<rparr>)
                 e productRefId isSponsored
      | None \<Rightarrow> getStoredAttribution s e productRefId isSponsored)"

text \<open>
  \<^verbatim>\<open>_getAttributionData\<close>: the sponsored channel, and the organic channel only when
  the sponsored read returned \<^verbatim>\<open>null\<close> (an object is truthy, so \<^verbatim>\<open>||\<close> stops there).
\<close>

definition getAttributionData :: "sdk \<Rightarrow> env \<Rightarrow> jsval \<Rightarrow> obj option \<times> sdk" where
  "getAttributionData s e productRefId =
     (if \<not> truthy (session_customerId s) \<or> \<not> truthy productRefId then (None, s)
      else
        (case getAttributionDataFor s e productRefId True of
           (Some data, s1) \<Rightarrow> (Some data, s1)
         | (None, s1) \<Rightarrow> getAttributionDataFor s1 e productRefId False))"

text \<open>\<^verbatim>\<open>_mergeAttributionData\<close>\<close>

definition mergeAttributionData :: "obj \<Rightarrow> obj \<Rightarrow> obj" where
  "mergeAttributionData eventData attribution =
     (let merged = assign eventData
            [(''recommenderId'', js_prop attribution ''recommenderId''),
             (''campaignId'', js_prop attribution ''campaignId''),
             (''tacticId'', js_prop attribution ''tacticId''),
             (''tacticLabel'', js_prop attribution ''tacticLabel''),
             (''bannerId'', js_prop attribution ''bannerId''),
             (''placementId'', js_prop attribution ''placementId''),
             (''widgetId'', js_prop attribution ''widgetId''),
             (''routeId'', js_prop attribution ''routeId''),
             (''retailBoostCollectionCampaignId'',
                js_prop attribution ''retailBoostCollectionCampaignId'')]
      in if truthy (js_prop attribution ''isSponsored'')
         then assign merged
            [(''adSetId'', js_prop attribution ''adSetId''),
             (''adSetVersion'', js_prop attribution ''adSetVersion''),
             (''costPerClick'', js_prop attribution ''costPerClick''),
             (''costPerAction'', js_prop attribution ''costPerAction''),
             (''costPerMille'', js_prop attribution ''costPerMille''),
             (''timeStamp'', js_prop attribution ''timeStamp''),
             (''hmacSalt'', js_prop attribution ''hmacSalt''),
             (''hmac'', js_prop attribution ''hmac''),
             (''supplierId'', js_prop attribution ''supplierId'')]
         else merged)"

section \<open>Event tracking\<close>

text \<open>
  \<^verbatim>\<open>_cleanObject\<close>: properties that are \<^verbatim>\<open>undefined\<close> or \<^verbatim>\<open>null\<close> are dropped, a
  nested plain object is cleaned recursively and dropped when nothing is left of it,
  every other value (arrays included) is kept as it is.
\<close>

fun cleanObject :: "obj \<Rightarrow> obj" where
  "cleanObject [] = []"
| "cleanObject ((key, val) # rest) =
     (case val of
        Undefined \<Rightarrow> cleanObject rest
      | Null \<Rightarrow> cleanObject rest
      | Obj nested \<Rightarrow>
          (let cleanedNested = cleanObject nested
           in if cleanedNested \<noteq> [] then (key, Obj cleanedNested) # cleanObject rest
              else cleanObject rest)
      | _ \<Rightarrow> (key, val) # cleanObject rest)"

text \<open>
  \<^verbatim>\<open>_queueEvent\<close>: the cleaned event joins \<^verbatim>\<open>pendingEvents\<close> and is returned. The
  batch timer and the transmission of the queue are outside this model: an event is
  accepted for sending when it is in the queue.
\<close>

definition queueEvent :: "sdk \<Rightarrow> string \<Rightarrow> obj \<Rightarrow> obj \<times> sdk" where
  "queueEvent s eventType eventData =
     (let cleanedEvent = cleanObject eventData
      in (cleanedEvent, s\<lparr>pendingEvents := pendingEvents s @ [(eventType, cleanedEvent)]\<rparr>))"

text \<open>\<^verbatim>\<open>_enrichProductData\<close>\<close>

definition enrichProductData :: "obj \<Rightarrow> obj" where
  "enrichProductData product =
     [(''refId'', js_prop product ''refId''),
      (''quantity'', js_prop product ''quantity''),
      (''price'', js_prop product ''price''),
      (''routeId'', js_prop product ''routeId''),
      (''widgetId'', js_prop product ''widgetId''),
      (''recommenderId'', js_prop product ''recommenderId''),
      (''campaignId'', js_prop product ''campaignId''),
      (''tacticId'', js_prop product ''tacticId''),
      (''clickId'', js_prop product ''clickId''),
      (''referralUrl'', js_prop product ''referralUrl''),
      (''tacticLabel'', js_prop product ''tacticLabel''),
      (''retailBoostCollectionCampaignId'', js_prop product ''retailBoostCollectionCampaignId''),
      (''adSetId'', js_prop product ''adSetId''),
      (''adSetVersion'', js_prop product ''adSetVersion''),
      (''costPerClick'', js_prop product ''costPerClick''),
      (''costPerAction'', js_prop product ''costPerAction''),
      (''costPerMille'', js_prop product ''costPerMille''),
      (''timeStamp'', js_prop product ''timeStamp''),
      (''hmacSalt'', js_prop product ''hmacSalt''),
      (''hmac'', js_prop product ''hmac''),
      (''bannerId'', js_prop product ''bannerId''),
      (''placementId'', js_prop product ''placementId'')]"

text \<open>
  \<^verbatim>\<open>_prepareProductWithAttribution\<close> returns the pair
  \<^verbatim>\<open>{ product: productWithAttr, attributionData }\<close>.
\<close>

definition prepareProductWithAttribution :: "sdk \<Rightarrow> env \<Rightarrow> obj \<Rightarrow> (obj \<times> obj option) \<times> sdk" where
  "prepareProductWithAttribution s e product =
     (case getAttributionData s e (js_prop product ''refId'') of
        (attribution, s1) \<Rightarrow>
          let baseProduct = enrichProductData product;
              productWithAttr = (case attribution of
                                   Some a \<Rightarrow> mergeAttributionData baseProduct a
                                 | None \<Rightarrow> baseProduct)
          in ((productWithAttr, attribution), s1))"

text \<open>
  The view of a value as the object whose properties are read: reading a property of
  \<^verbatim>\<open>undefined\<close> or \<^verbatim>\<open>null\<close> throws, and a primitive has none of the properties read
  here.
\<close>

fun object_of :: "jsval \<Rightarrow> error + obj" where
  "object_of Undefined = Inl TypeError"
| "object_of Null = Inl TypeError"
| "object_of (Obj ob) = Inr ob"
| "object_of _ = Inr []"




text \<open>
  \<^verbatim>\<open>trackAddToCart\<close>. The method is \<^verbatim>\<open>async\<close>: an exception it throws rejects the
  promise it returns; \<open>Inl\<close> is that rejection.
\<close>

definition addToCartBaseEvent :: "env \<Rightarrow> obj \<Rightarrow> obj \<Rightarrow> obj option \<Rightarrow> obj" where
  "addToCartBaseEvent e eventData product attribution =
     [(''currentUrl'', js_or (js_prop eventData ''currentUrl'') (Str (href e))),
      (''eventTime'', Str (isoTime e)),
      (''product'', Obj [(''refId'', js_prop product ''refId''),
                         (''quantity'', js_prop product ''quantity''),
                         (''price'', js_prop product ''price'')]),
      (''clickId'', js_or (js_prop eventData ''clickId'')
                      (case attribution of Some a \<Rightarrow> js_prop a ''clickId'' | None \<Rightarrow> Undefined)),
      (''referralUrl'', js_or (js_or (js_prop eventData ''referralUrl'') (Str (referrer e)))
                          (case attribution of Some a \<Rightarrow> js_prop a ''referralUrl'' | None \<Rightarrow> Null))]"

definition trackAddToCart :: "sdk \<Rightarrow> env \<Rightarrow> obj \<Rightarrow> (error + obj) \<times> sdk" where
  "trackAddToCart s e eventData =
     (case object_of (js_prop eventData ''product'') of
        Inl err \<Rightarrow> (Inl err, s)
      | Inr product \<Rightarrow>
          let productRefId = js_prop product ''refId'';
              resolved = (if \<not> truthy (js_prop eventData ''clickId'')
                          then getAttributionData s e productRefId else (None, s));
              attribution = fst resolved;
              s1 = snd resolved
          in if \<not> truthy (js_prop eventData ''clickId'') \<and>
                (case attribution of None \<Rightarrow> True | Some a \<Rightarrow> \<not> truthy (js_prop a ''clickId''))
             then (Inl (Error ''Add to Cart requires clickId. Generate a Click event first.''),
                   error_log s1 ''Add to Cart requires clickId. Generate a Click event first.'')
             else
               let baseEvent = addToCartBaseEvent e eventData product attribution;
                   event = (case attribution of
                              Some a \<Rightarrow> mergeAttributionData baseEvent a
                            | None \<Rightarrow> mergeAttributionData baseEvent eventData)
               in (case queueEvent s1 ''add-to-carts'' event of (queued, s2) \<Rightarrow> (Inr queued, s2)))"





section \<open>Notions used to state the properties\<close>

text \<open>The entry the persistent store in use holds under a key.\<close>

definition persistent_entry :: "sdk \<Rightarrow> env \<Rightarrow> string \<Rightarrow> stored_text option" where
  "persistent_entry s e key = (if uses_localStorage s e then localStorage s key else cookie s key)"

text \<open>
  The persistent store works: no operation on it throws, and the clock is not before
  the epoch, so that a cookie written with the epoch as its expiry is dropped.
\<close>

definition storage_ok :: "env \<Rightarrow> bool" where
  "storage_ok e \<longleftrightarrow> \<not> read_throws e \<and> \<not> write_throws e \<and> \<not> remove_throws e \<and> 0 \<le> now e"

text \<open>
  A record is live at a time when its \<^verbatim>\<open>expiresAt\<close> is a number after that time, and
  stale when it is a number not after it.
\<close>

definition live_at :: "int \<Rightarrow> obj \<Rightarrow> bool" where
  "live_at t r = (case js_prop r ''expiresAt'' of Num x \<Rightarrow> t < x | _ \<Rightarrow> False)"

definition stale_at :: "int \<Rightarrow> obj \<Rightarrow> bool" where
  "stale_at t r = (case js_prop r ''expiresAt'' of Num x \<Rightarrow> x \<le> t | _ \<Rightarrow> False)"

text \<open>
  The store holds record \<open>r\<close> for a product and a channel under the current customer:
  the cache has it, or the cache has no entry for the key and the persistent store
  has the JSON text of \<open>r\<close> (the cache starts empty on every page load).
\<close>

definition holds_record :: "sdk \<Rightarrow> env \<Rightarrow> jsval \<Rightarrow> bool \<Rightarrow> obj \<Rightarrow> bool" where
  "holds_record s e productRefId isSponsored r \<longleftrightarrow>
     attributionData s (mapKey productRefId isSponsored) = Some r \<or>
     (attributionData s (mapKey productRefId isSponsored) = None \<and>
      persistent_entry s e (storageKey s productRefId isSponsored) = Some (Json (Obj r)))"

text \<open>Neither the cache nor the persistent store has an entry for the key.\<close>

definition no_entry :: "sdk \<Rightarrow> env \<Rightarrow> jsval \<Rightarrow> bool \<Rightarrow> bool" where
  "no_entry s e productRefId isSponsored \<longleftrightarrow>
     attributionData s (mapKey productRefId isSponsored) = None \<and>
     persistent_entry s e (storageKey s productRefId isSponsored) = None"

text \<open>The fields \<^verbatim>\<open>_mergeAttributionData\<close> copies only from a sponsored record.\<close>

definition sponsoredOnlyFields :: "string list" where
  "sponsoredOnlyFields =
     [''adSetId'', ''adSetVersion'', ''costPerClick'', ''costPerAction'', ''costPerMille'',
      ''timeStamp'', ''hmacSalt'', ''hmac'', ''supplierId'']"

definition coreAttributionFields :: "string list" where
  "coreAttributionFields =
     [''recommenderId'', ''campaignId'', ''tacticId'', ''tacticLabel'', ''bannerId'',
      ''placementId'', ''widgetId'', ''routeId'', ''retailBoostCollectionCampaignId'']"

text \<open>The channels \<^verbatim>\<open>_cleanupExpiredAttributionData\<close> removes for a given argument.\<close>

definition cleanup_channels :: "jsval \<Rightarrow> bool set" where
  "cleanup_channels flag = (if flag = Undefined \<or> flag = Null then {True, False} else {truthy flag})"

text \<open>
  A step from \<open>s\<close> to \<open>s'\<close> leaves the configuration, the session and the queue as
  they are, and touches the cache only at the keys \<open>ks\<close> and the persistent store
  only at the keys \<open>Ks\<close>.
\<close>

definition frame :: "env \<Rightarrow> string set \<Rightarrow> string set \<Rightarrow> sdk \<Rightarrow> sdk \<Rightarrow> bool" where
  "frame e ks Ks s s' \<longleftrightarrow>
     config s' = config s \<and> session_customerId s' = session_customerId s
     \<and> pendingEvents s' = pendingEvents s
     \<and> (\<forall>k. k \<notin> ks \<longrightarrow> attributionData s' k = attributionData s k)
     \<and> (\<forall>K. K \<notin> Ks \<longrightarrow> persistent_entry s' e K = persistent_entry s e K)"


text \<open>
  The persistent write of a text with an expiry keeps the text as it is: the write does
  not throw and, where the cookie is used, the expiry date printed to the second is
  after the clock and the browser does not cut the value.
\<close>

definition write_kept :: "sdk \<Rightarrow> env \<Rightarrow> stored_text \<Rightarrow> int \<Rightarrow> bool" where
  "write_kept s e val expires \<longleftrightarrow>
     \<not> write_throws e \<and>
     (uses_localStorage s e \<or> (now e < toUTCString expires \<and> cookie_value val = val))"

text \<open>The fields \<^verbatim>\<open>_storeAttributionData\<close> copies from the click data into the record.\<close>

definition copiedFields :: "string list" where
  "copiedFields =
     [''clickId'', ''eventTime'', ''currentUrl'', ''referralUrl'', ''actionType'', ''contextType'',
      ''redirectUrl'', ''clickPosition'', ''slot'', ''widgetId'', ''routeId'', ''recommenderId'',
      ''campaignId'', ''tacticId'', ''tacticLabel'', ''bannerId'', ''placementId'',
      ''retailBoostCollectionCampaignId'', ''adSetId'', ''adSetVersion'', ''costPerClick'',
      ''costPerAction'', ''costPerMille'', ''timeStamp'', ''hmacSalt'', ''hmac'', ''supplierId'',
      ''isSponsored'']"

text \<open>
  A parsed value that is not a record with an \<^verbatim>\<open>expiresAt\<close> later than the given time:
  an object whose \<^verbatim>\<open>expiresAt\<close> does not compare greater, or a string, a number, a
  boolean or an array (\<^verbatim>\<open>null\<close> is not among them: reading its \<^verbatim>\<open>expiresAt\<close>
  throws).
\<close>

definition no_later_expiry :: "jsval \<Rightarrow> int \<Rightarrow> bool" where
  "no_later_expiry v t =
     (case v of
        Obj r \<Rightarrow> \<not> js_gt (js_prop r ''expiresAt'') t
      | Undefined \<Rightarrow> False
      | Null \<Rightarrow> False
      | _ \<Rightarrow> True)"




section \<open>Example instances\<close>

text \<open>A small instance with a sponsored record in the cache and an organic one in \<^verbatim>\<open>localStorage\<close>.\<close>

definition demo_config :: config where
  "demo_config = \<lparr>cookiePrefix = ''pa_'', storageType = ''localStorage'', attributionWindow = 1000\<rparr>"

definition demo_env :: env where
  "demo_env = \<lparr>now = 5000, isoTime = ''1970-01-01T00:00:05.000Z'',
     href = ''https://shop.example/p/SKU1'', referrer = [], generatedId = ''id-1'',
     localStorage_defined = True, read_throws = False, write_throws = False,
     remove_throws = False\<rparr>"

definition demo_sponsored :: obj where
  "demo_sponsored = [(''clickId'', Str ''C1''), (''adSetId'', Str ''AS1''),
     (''isSponsored'', Bool True), (''storedAt'', Num 4500), (''expiresAt'', Num 5500)]"

definition demo_organic :: obj where
  "demo_organic = [(''clickId'', Str ''C2''), (''widgetId'', Str ''W1''),
     (''isSponsored'', Bool False), (''storedAt'', Num 4600), (''expiresAt'', Num 5600)]"

definition demo_sdk :: sdk where
  "demo_sdk = \<lparr>config = demo_config, session_customerId = Str ''cust1'',
     attributionData = [''SKU1_s'' \<mapsto> demo_sponsored], pendingEvents = [],
     localStorage = [''pa_attribution_cust1_SKU1_o'' \<mapsto> Json (Obj demo_organic)],
     cookie = Map.empty, console_error = []\<rparr>"

text \<open>An instance whose sponsored record for SKU1, in the cache and in \<^verbatim>\<open>localStorage\<close>, has expired.\<close>

definition demo_expired :: obj where
  "demo_expired = [(''clickId'', Str ''C0''), (''adSetId'', Str ''AS1''),
     (''isSponsored'', Bool True), (''storedAt'', Num 3000), (''expiresAt'', Num 4000)]"

definition stale_sdk :: sdk where
  "stale_sdk = \<lparr>config = demo_config, session_customerId = Str ''cust1'',
     attributionData = [''SKU1_s'' \<mapsto> demo_expired], pendingEvents = [],
     localStorage = [''pa_attribution_cust1_SKU1_s'' \<mapsto> Json (Obj demo_expired)],
     cookie = Map.empty, console_error = []\<rparr>"

text \<open>An instance with no attribution at all, and two add-to-cart requests.\<close>

definition empty_sdk :: sdk where
  "empty_sdk = \<lparr>config = demo_config, session_customerId = Str ''cust1'',
     attributionData = Map.empty, pendingEvents = [],
     localStorage = Map.empty, cookie = Map.empty, console_error = []\<rparr>"

definition demo_cart :: obj where
  "demo_cart = [(''product'', Obj [(''refId'', Str ''SKU1''), (''quantity'', Num 1), (''price'', Num 10)])]"

definition demo_cart_with_click :: obj where
  "demo_cart_with_click =
     [(''product'', Obj [(''refId'', Str ''SKU1''), (''quantity'', Num 1), (''price'', Num 10)]),
      (''clickId'', Str ''manual-click-id-123''), (''widgetId'', Str ''widget-123'')]"

text \<open>
  An instance that holds only an organic record for SKU1, and a purchased product for
  which the caller supplies an ad-set identifier of its own.
\<close>

definition organic_sdk :: sdk where
  "organic_sdk = \<lparr>config = demo_config, session_customerId = Str ''cust1'',
     attributionData = [''SKU1_o'' \<mapsto> demo_organic], pendingEvents = [],
     localStorage = Map.empty, cookie = Map.empty, console_error = []\<rparr>"

definition demo_product :: obj where
  "demo_product = [(''refId'', Str ''SKU1''), (''quantity'', Num 1), (''price'', Num 10),
     (''adSetId'', Str ''AS9'')]"

text \<open>An instance whose persistent entry for the sponsored channel of SKU1 is not JSON.\<close>

definition corrupt_sdk :: sdk where
  "corrupt_sdk = \<lparr>config = demo_config, session_customerId = Str ''cust1'',
     attributionData = Map.empty, pendingEvents = [],
     localStorage = [''pa_attribution_cust1_SKU1_s'' \<mapsto> Malformed ''not-json''],
     cookie = Map.empty, console_error = []\<rparr>"



text \<open>Two clicks on SKU1 from a recommendation widget, the second one sponsored as well.\<close>

definition first_click :: obj where
  "first_click = [(''clickId'', Str ''C1''), (''refId'', Str ''SKU1''), (''adSetId'', Str ''AS1''),
     (''isSponsored'', Bool True)]"

definition second_click :: obj where
  "second_click = [(''clickId'', Str ''C2''), (''refId'', Str ''SKU1''), (''adSetId'', Str ''AS2''),
     (''isSponsored'', Bool True)]"

definition later_env :: env where
  "later_env = demo_env\<lparr>now := 5100\<rparr>"




text \<open>
  An instance that holds a live sponsored record and an expired organic record for
  SKU1, each in the cache and in \<^verbatim>\<open>localStorage\<close>.
\<close>

definition expired_organic :: obj where
  "expired_organic = [(''clickId'', Str ''C3''), (''widgetId'', Str ''W1''),
     (''isSponsored'', Bool False), (''storedAt'', Num 3000), (''expiresAt'', Num 4000)]"

definition shadowed_sdk :: sdk where
  "shadowed_sdk = \<lparr>config = demo_config, session_customerId = Str ''cust1'',
     attributionData = [''SKU1_s'' \<mapsto> demo_sponsored, ''SKU1_o'' \<mapsto> expired_organic],
     pendingEvents = [],
     localStorage = [''pa_attribution_cust1_SKU1_s'' \<mapsto> Json (Obj demo_sponsored),
                     ''pa_attribution_cust1_SKU1_o'' \<mapsto> Json (Obj expired_organic)],
     cookie = Map.empty, console_error = []\<rparr>"

text \<open>
  An instance whose persistent entry for the sponsored channel of SKU1 is the JSON text
  of a string.
\<close>

definition nonrecord_sdk :: sdk where
  "nonrecord_sdk = \<lparr>config = demo_config, session_customerId = Str ''cust1'',
     attributionData = Map.empty, pendingEvents = [],
     localStorage = [''pa_attribution_cust1_SKU1_s'' \<mapsto> Json (Str ''hello'')],
     cookie = Map.empty, console_error = []\<rparr>"

text \<open>
  An instance that keeps its records in cookies, and a sponsored click made on a page
  whose address contains a \<^verbatim>\<open>;\<close>.
\<close>

definition cookie_sdk :: sdk where
  "cookie_sdk = \<lparr>config = \<lparr>cookiePrefix = ''pa_'', storageType = ''cookie'', attributionWindow = 1000\<rparr>,
     session_customerId = Str ''cust1'', attributionData = Map.empty, pendingEvents = [],
     localStorage = Map.empty, cookie = Map.empty, console_error = []\<rparr>"

definition semicolon_click :: obj where
  "semicolon_click = [(''clickId'', Str ''C2''), (''refId'', Str ''SKU1''),
     (''currentUrl'', Str ''https://shop.example/p;v=2''), (''adSetId'', Str ''AS2''),
     (''isSponsored'', Bool True)]"


section \<open>Objects and keys\<close>

lemma js_prop_update: "js_prop (AList.update k v ob) k' = (if k' = k then v else js_prop ob k')"
  by (simp add: js_prop_def update_conv')

lemma js_prop_assign_Nil: "assign ob [] = ob"
  by (simp add: assign_def)

lemma assign_Cons: "assign ob (kv # kvs) = assign (AList.update (fst kv) (snd kv) ob) kvs"
  by (simp add: assign_def)

lemma js_prop_assign:
  "js_prop (assign ob kvs) k = (case map_of (rev kvs) k of Some v \<Rightarrow> v | None \<Rightarrow> js_prop ob k)"
proof (induction kvs arbitrary: ob)
  case Nil
  show ?case by (simp add: js_prop_assign_Nil)
next
  case (Cons kv kvs)
  show ?case
    by (cases kv) (auto simp: assign_Cons Cons.IH js_prop_update map_add_def split: option.splits)
qed

lemma typeSuffix_eq [simp]: "typeSuffix a = typeSuffix b \<longleftrightarrow> a = b"
  by (auto simp: typeSuffix_def)

lemma length_typeSuffix [simp]: "length (typeSuffix a) = 1"
  by (simp add: typeSuffix_def)

lemma mapKey_eq [simp]:
  "mapKey r a = mapKey r' b \<longleftrightarrow> js_toString r = js_toString r' \<and> a = b"
  by (auto simp: mapKey_def)

lemma storageKey_eq:
  "config s' = config s \<Longrightarrow> session_customerId s' = session_customerId s \<Longrightarrow>
   storageKey s' r a = storageKey s r' b \<longleftrightarrow> js_toString r = js_toString r' \<and> a = b"
  by (auto simp: storageKey_def)

section \<open>Effects of the store operations\<close>

lemma persistent_get_eq:
  "persistent_get s e K = (if read_throws e then Inl DOMException else Inr (persistent_entry s e K))"
  by (simp add: persistent_get_def persistent_entry_def getCookie_def)

lemma persistent_remove_effect:
  assumes "\<not> remove_throws e" "0 \<le> now e"
  shows "\<exists>s'. persistent_remove s e K = Inr s' \<and> config s' = config s
      \<and> session_customerId s' = session_customerId s \<and> pendingEvents s' = pendingEvents s
      \<and> attributionData s' = attributionData s \<and> console_error s' = console_error s
      \<and> persistent_entry s' e = (persistent_entry s e)(K := None)"
  using assms
  by (auto simp: persistent_remove_def persistent_entry_def uses_localStorage_def setCookie_def)

lemma cleanupType_effect:
  assumes "\<not> remove_throws e" "0 \<le> now e"
  shows "config (cleanupType e q s t) = config s
      \<and> session_customerId (cleanupType e q s t) = session_customerId s
      \<and> pendingEvents (cleanupType e q s t) = pendingEvents s
      \<and> console_error (cleanupType e q s t) = console_error s
      \<and> attributionData (cleanupType e q s t) = (attributionData s)(mapKey q (truthy t) := None)
      \<and> persistent_entry (cleanupType e q s t) e
          = (persistent_entry s e)(storageKey s q (truthy t) := None)"
proof -
  let ?s1 = "s\<lparr>attributionData := (attributionData s)(mapKey q (truthy t) := None)\<rparr>"
  obtain s' where r: "persistent_remove ?s1 e (storageKey s q (truthy t)) = Inr s'"
    and f: "config s' = config ?s1" "session_customerId s' = session_customerId ?s1"
      "pendingEvents s' = pendingEvents ?s1" "attributionData s' = attributionData ?s1"
      "console_error s' = console_error ?s1"
      "persistent_entry s' e = (persistent_entry ?s1 e)(storageKey s q (truthy t) := None)"
    using persistent_remove_effect [OF assms, of ?s1 "storageKey s q (truthy t)"] by blast
  have c: "cleanupType e q s t = s'"
    by (simp add: cleanupType_def r)
  have p: "persistent_entry ?s1 e = persistent_entry s e"
    by (rule ext) (simp add: persistent_entry_def uses_localStorage_def)
  show ?thesis
    using f by (simp add: c p)
qed

lemma persistent_entry_cache_upd [simp]:
  "persistent_entry (s\<lparr>attributionData := c\<rparr>) e = persistent_entry s e"
  by (rule ext) (simp add: persistent_entry_def uses_localStorage_def)

lemma persistent_entry_error_log [simp]:
  "persistent_entry (error_log s m) e = persistent_entry s e"
  by (rule ext) (simp add: persistent_entry_def uses_localStorage_def error_log_def)

lemma error_log_fields [simp]:
  "config (error_log s m) = config s"
  "session_customerId (error_log s m) = session_customerId s"
  "pendingEvents (error_log s m) = pendingEvents s"
  "attributionData (error_log s m) = attributionData s"
  "localStorage (error_log s m) = localStorage s"
  "cookie (error_log s m) = cookie s"
  "console_error (error_log s m) = console_error s @ [m]"
  by (simp_all add: error_log_def)

lemma storageKey_cong [simp]:
  "storageKey (s\<lparr>attributionData := c\<rparr>) = storageKey s"
  "storageKey (error_log s m) = storageKey s"
  by (rule ext, rule ext, simp add: storageKey_def)+

lemma persistent_remove_frame:
  "persistent_remove s e K = Inr s' \<Longrightarrow>
     config s' = config s \<and> session_customerId s' = session_customerId s
     \<and> pendingEvents s' = pendingEvents s \<and> attributionData s' = attributionData s
     \<and> console_error s' = console_error s
     \<and> (\<forall>K'. K' \<noteq> K \<longrightarrow> persistent_entry s' e K' = persistent_entry s e K')"
  by (auto simp: persistent_remove_def persistent_entry_def uses_localStorage_def setCookie_def
           split: if_splits)

lemma cleanupType_frame:
  "config (cleanupType e q s t) = config s
   \<and> session_customerId (cleanupType e q s t) = session_customerId s
   \<and> pendingEvents (cleanupType e q s t) = pendingEvents s
   \<and> attributionData (cleanupType e q s t) = (attributionData s)(mapKey q (truthy t) := None)
   \<and> (\<forall>K. K \<noteq> storageKey s q (truthy t) \<longrightarrow>
         persistent_entry (cleanupType e q s t) e K = persistent_entry s e K)"
proof (cases "persistent_remove (s\<lparr>attributionData := (attributionData s)(mapKey q (truthy t) := None)\<rparr>)
                e (storageKey s q (truthy t))")
  case (Inl err)
  then show ?thesis by (simp add: cleanupType_def)
next
  case (Inr s')
  from persistent_remove_frame [OF Inr] show ?thesis
    by (simp add: cleanupType_def Inr)
qed

lemma storageKey_same:
  "config s' = config s \<Longrightarrow> session_customerId s' = session_customerId s \<Longrightarrow>
   storageKey s' = storageKey s"
  by (rule ext, rule ext) (simp add: storageKey_def)

lemma frame_refl: "frame e ks Ks s s"
  by (simp add: frame_def)

lemma frame_trans: "frame e ks Ks s s1 \<Longrightarrow> frame e ks Ks s1 s2 \<Longrightarrow> frame e ks Ks s s2"
  by (simp add: frame_def)

lemma frame_mono: "frame e ks Ks s s' \<Longrightarrow> ks \<subseteq> ks' \<Longrightarrow> Ks \<subseteq> Ks' \<Longrightarrow> frame e ks' Ks' s s'"
  by (auto simp: frame_def)

lemma frame_storageKey: "frame e ks Ks s s' \<Longrightarrow> storageKey s' = storageKey s"
  by (intro storageKey_same) (simp_all add: frame_def)

lemma cleanupType_frame2:
  "frame e {mapKey q (truthy t)} {storageKey s q (truthy t)} s (cleanupType e q s t)"
  using cleanupType_frame [of e q s t] by (simp add: frame_def)

lemma cleanup_Bool_frame:
  "frame e {mapKey q b} {storageKey s q b} s (cleanupExpiredAttributionData s e q (Bool b))"
  using cleanupType_frame2 [of e q "Bool b" s]
  by (simp add: cleanupExpiredAttributionData_def frame_refl)


lemma cleanup_effect:
  assumes c: "truthy (session_customerId s)" and ok: "\<not> remove_throws e" "0 \<le> now e"
  shows "attributionData (cleanupExpiredAttributionData s e q flag)
           = (\<lambda>k. if k \<in> mapKey q ` cleanup_channels flag then None else attributionData s k)
       \<and> persistent_entry (cleanupExpiredAttributionData s e q flag) e
           = (\<lambda>K. if K \<in> storageKey s q ` cleanup_channels flag then None
                   else persistent_entry s e K)"
proof -
  note one = cleanupType_effect [OF ok]
  have k: "storageKey (cleanupType e q s t) = storageKey s" for t
    using one [of q s t] by (intro storageKey_same) simp_all
  show ?thesis
  proof (cases "flag = Undefined \<or> flag = Null")
    case True
    then show ?thesis
      using c one [of q s "Bool True"] one [of q "cleanupType e q s (Bool True)" "Bool False"]
      by (auto simp: cleanupExpiredAttributionData_def cleanup_channels_def k fun_eq_iff)
  next
    case False
    then show ?thesis
      using c one [of q s flag]
      by (auto simp: cleanupExpiredAttributionData_def cleanup_channels_def fun_eq_iff)
  qed
qed

lemma live_at_gt: "live_at t r \<Longrightarrow> js_gt (js_prop r ''expiresAt'') t"
  by (auto simp: live_at_def js_gt_def split: jsval.splits)

lemma stale_at_not_gt: "stale_at t r \<Longrightarrow> \<not> js_gt (js_prop r ''expiresAt'') t"
  by (auto simp: stale_at_def js_gt_def split: jsval.splits)

lemma frame_cache_upd:
  "frame e {k} Ks s (s\<lparr>attributionData := (attributionData s)(k := v)\<rparr>)"
  by (simp add: frame_def)

lemma frame_error_log: "frame e ks Ks s (error_log s m)"
  by (simp add: frame_def)

lemma getStored_frame:
  assumes "getStoredAttribution s e q ch = (res, s')"
  shows "frame e {mapKey q ch} {storageKey s q ch} s s'"
  using assms cleanup_Bool_frame [of e q ch s]
  by (auto simp: getStoredAttribution_def frame_error_log frame_refl frame_cache_upd
           split: sum.splits option.splits if_splits jsval.splits)

lemma getStored_result_live:
  assumes "getStoredAttribution s e q ch = (Some d, s')"
  shows "js_gt (js_prop d ''expiresAt'') (now e)"
  using assms
  by (auto simp: getStoredAttribution_def
           split: sum.splits option.splits if_splits jsval.splits)

lemma getStored_live:
  assumes "\<not> read_throws e"
    and "persistent_entry s e (storageKey s q ch) = Some (Json (Obj r))"
    and "js_gt (js_prop r ''expiresAt'') (now e)"
  shows "getStoredAttribution s e q ch
           = (Some r, s\<lparr>attributionData := (attributionData s)(mapKey q ch \<mapsto> r)\<rparr>)"
  using assms by (simp add: getStoredAttribution_def persistent_get_eq)

lemma getStored_none:
  assumes "\<not> read_throws e" and "persistent_entry s e (storageKey s q ch) = None"
  shows "getStoredAttribution s e q ch = (None, s)"
  using assms by (simp add: getStoredAttribution_def persistent_get_eq)

lemma getStored_stale:
  assumes "\<not> read_throws e"
    and "persistent_entry s e (storageKey s q ch) = Some (Json (Obj r))"
    and "\<not> js_gt (js_prop r ''expiresAt'') (now e)"
  shows "getStoredAttribution s e q ch
           = (None, cleanupExpiredAttributionData s e q (Bool ch))"
  using assms by (simp add: getStoredAttribution_def persistent_get_eq)

lemma cleanup_Bool_effect:
  assumes "truthy (session_customerId s)" "\<not> remove_throws e" "0 \<le> now e"
  shows "attributionData (cleanupExpiredAttributionData s e q (Bool ch)) (mapKey q ch) = None
       \<and> persistent_entry (cleanupExpiredAttributionData s e q (Bool ch)) e (storageKey s q ch) = None"
  using cleanup_effect [OF assms, of q "Bool ch"]
  by (simp add: cleanup_channels_def)

lemma getFor_frame:
  assumes "getAttributionDataFor s e q ch = (res, s')"
  shows "frame e {mapKey q ch} {storageKey s q ch} s s'"
proof (cases "attributionData s (mapKey q ch)")
  case None
  then show ?thesis
    using assms getStored_frame by (simp add: getAttributionDataFor_def)
next
  case (Some d)
  show ?thesis
  proof (cases "js_gt (js_prop d ''expiresAt'') (now e)")
    case True
    then show ?thesis
      using assms Some by (auto simp: getAttributionDataFor_def frame_refl)
  next
    case False
    let ?s1 = "s\<lparr>attributionData := (attributionData s)(mapKey q ch := None)\<rparr>"
    have "getStoredAttribution ?s1 e q ch = (res, s')"
      using assms Some False by (simp add: getAttributionDataFor_def)
    then have "frame e {mapKey q ch} {storageKey ?s1 q ch} ?s1 s'"
      by (rule getStored_frame)
    moreover have "frame e {mapKey q ch} {storageKey s q ch} s ?s1"
      by (rule frame_cache_upd)
    ultimately show ?thesis
      using frame_trans by simp
  qed
qed

lemma getFor_result_live:
  assumes "getAttributionDataFor s e q ch = (Some d, s')"
  shows "js_gt (js_prop d ''expiresAt'') (now e)"
  using assms getStored_result_live
  by (auto simp: getAttributionDataFor_def split: option.splits if_splits)

lemma getFor_holds:
  assumes "\<not> read_throws e" and "holds_record s e q ch r"
    and "js_gt (js_prop r ''expiresAt'') (now e)"
  shows "getAttributionDataFor s e q ch
           = (Some r, s\<lparr>attributionData := (attributionData s)(mapKey q ch \<mapsto> r)\<rparr>)"
proof (cases "attributionData s (mapKey q ch)")
  case None
  then show ?thesis
    using assms by (simp add: getAttributionDataFor_def holds_record_def getStored_live)
next
  case (Some d)
  then have d: "d = r"
    using assms by (simp add: holds_record_def)
  have "(attributionData s)(mapKey q ch \<mapsto> r) = attributionData s"
    using Some d by (simp add: map_upd_triv)
  then show ?thesis
    using Some d assms by (simp add: getAttributionDataFor_def)
qed

lemma getFor_no_entry:
  assumes "\<not> read_throws e" and "no_entry s e q ch"
  shows "getAttributionDataFor s e q ch = (None, s)"
  using assms by (simp add: getAttributionDataFor_def no_entry_def getStored_none)

lemma getData_result_live:
  assumes "getAttributionData s e q = (Some d, s')"
  shows "js_gt (js_prop d ''expiresAt'') (now e)"
  using assms getFor_result_live
  by (auto simp: getAttributionData_def split: if_splits prod.splits option.splits)

lemma getData_frame:
  assumes "getAttributionData s e q = (res, s')"
  shows "frame e (range (mapKey q)) (range (storageKey s q)) s s'"
proof (cases "\<not> truthy (session_customerId s) \<or> \<not> truthy q")
  case True
  then show ?thesis using assms by (auto simp: getAttributionData_def frame_refl)
next
  case False
  obtain r1 s1 where g1: "getAttributionDataFor s e q True = (r1, s1)"
    by (cases "getAttributionDataFor s e q True")
  have f1: "frame e (range (mapKey q)) (range (storageKey s q)) s s1"
    using getFor_frame [OF g1] by (rule frame_mono) auto
  show ?thesis
  proof (cases r1)
    case (Some d)
    then show ?thesis using assms False g1 f1 by (simp add: getAttributionData_def)
  next
    case None
    then have g2: "getAttributionDataFor s1 e q False = (res, s')"
      using assms False g1 by (simp add: getAttributionData_def)
    have "frame e (range (mapKey q)) (range (storageKey s1 q)) s1 s'"
      using getFor_frame [OF g2] by (rule frame_mono) auto
    then show ?thesis
      using f1 frame_trans by (simp add: frame_storageKey [OF f1])
  qed
qed

section \<open>Sponsored attribution has priority\<close>

text \<open>
  Claim C1. When the store holds a live sponsored record and a live organic record for
  a product under the current customer, \<^verbatim>\<open>_getAttributionData\<close> returns the sponsored
  record; the only change of state is that the cache holds the sponsored record, so
  the organic channel is not read. In general the result of the sponsored read is
  returned whenever it is a record, and the organic channel is read exactly when the
  sponsored read returned nothing.
\<close>

theorem sponsored_priority:
  assumes "truthy (session_customerId s)" and "truthy productRefId" and "\<not> read_throws e"
    and "holds_record s e productRefId True sponsored" and "live_at (now e) sponsored"
    and "holds_record s e productRefId False organic" and "live_at (now e) organic"
  shows "getAttributionData s e productRefId
           = (Some sponsored,
              s\<lparr>attributionData := (attributionData s)(mapKey productRefId True \<mapsto> sponsored)\<rparr>)
       \<and> (\<forall>data s1. getAttributionDataFor s e productRefId True = (Some data, s1)
             \<longrightarrow> getAttributionData s e productRefId = (Some data, s1))
       \<and> (\<forall>s1. getAttributionDataFor s e productRefId True = (None, s1)
             \<longrightarrow> getAttributionData s e productRefId = getAttributionDataFor s1 e productRefId False)"
proof -
  have "getAttributionDataFor s e productRefId True
          = (Some sponsored,
             s\<lparr>attributionData := (attributionData s)(mapKey productRefId True \<mapsto> sponsored)\<rparr>)"
    using assms by (intro getFor_holds live_at_gt)
  then show ?thesis
    using assms(1,2) by (simp add: getAttributionData_def)
qed

lemma demo_keys:
  "mapKey (Str ''SKU1'') True = ''SKU1_s''" "mapKey (Str ''SKU1'') False = ''SKU1_o''"
  "storageKey demo_sdk (Str ''SKU1'') True = ''pa_attribution_cust1_SKU1_s''"
  "storageKey demo_sdk (Str ''SKU1'') False = ''pa_attribution_cust1_SKU1_o''"
  by (simp_all add: mapKey_def storageKey_def typeSuffix_def demo_sdk_def demo_config_def)

theorem sponsored_priority_witness:
  "truthy (session_customerId demo_sdk) \<and> truthy (Str ''SKU1'') \<and> \<not> read_throws demo_env
   \<and> holds_record demo_sdk demo_env (Str ''SKU1'') True demo_sponsored
   \<and> live_at (now demo_env) demo_sponsored
   \<and> holds_record demo_sdk demo_env (Str ''SKU1'') False demo_organic
   \<and> live_at (now demo_env) demo_organic
   \<and> fst (getAttributionData demo_sdk demo_env (Str ''SKU1'')) = Some demo_sponsored"
proof -
  have h1: "truthy (session_customerId demo_sdk)" by (simp add: demo_sdk_def)
  have h2: "truthy (Str ''SKU1'')" by simp
  have h3: "\<not> read_throws demo_env" by (simp add: demo_env_def)
  have h4: "holds_record demo_sdk demo_env (Str ''SKU1'') True demo_sponsored"
    by (simp add: holds_record_def demo_keys) (simp add: demo_sdk_def)
  have h5: "live_at (now demo_env) demo_sponsored"
    by (simp add: live_at_def demo_env_def demo_sponsored_def js_prop_def)
  have h6: "holds_record demo_sdk demo_env (Str ''SKU1'') False demo_organic"
    by (simp add: holds_record_def demo_keys persistent_entry_def uses_localStorage_def)
       (simp add: demo_sdk_def demo_config_def demo_env_def)
  have h7: "live_at (now demo_env) demo_organic"
    by (simp add: live_at_def demo_env_def demo_organic_def js_prop_def)
  show ?thesis
    using sponsored_priority [OF h1 h2 h3 h4 h5 h6 h7] h1 h2 h3 h4 h5 h6 h7 by simp
qed

section \<open>Expired records are deleted on read\<close>

lemma storage_okD:
  "storage_ok e \<Longrightarrow> \<not> read_throws e \<and> \<not> write_throws e \<and> \<not> remove_throws e \<and> 0 \<le> now e"
  by (simp add: storage_ok_def)

lemma getStored_absent:
  assumes cust: "truthy (session_customerId s)" and ok: "storage_ok e"
    and stale: "\<not> js_gt (js_prop r ''expiresAt'') (now e)"
    and cache: "attributionData s (mapKey q ch) \<noteq> Some r"
    and run: "getStoredAttribution s e q ch = (res, s')"
  shows "res \<noteq> Some r \<and> attributionData s' (mapKey q ch) \<noteq> Some r
       \<and> persistent_entry s' e (storageKey s q ch) \<noteq> Some (Json (Obj r))"
proof -
  note okD = storage_okD [OF ok]
  note del = cleanup_Bool_effect [OF cust, of e q ch]
  show ?thesis
    using run stale cache okD del
    by (auto simp: getStoredAttribution_def persistent_get_eq
             split: option.splits if_splits sum.splits jsval.splits stored_text.splits)
qed

lemma getStored_deletes:
  assumes cust: "truthy (session_customerId s)" and ok: "storage_ok e"
    and stale: "\<not> js_gt (js_prop r ''expiresAt'') (now e)"
    and stored: "persistent_entry s e (storageKey s q ch) = Some (Json (Obj r))"
  shows "fst (getStoredAttribution s e q ch) = None
       \<and> attributionData (snd (getStoredAttribution s e q ch)) (mapKey q ch) = None
       \<and> persistent_entry (snd (getStoredAttribution s e q ch)) e (storageKey s q ch) = None"
  using storage_okD [OF ok] cleanup_Bool_effect [OF cust, of e q ch] stale stored
  by (simp add: getStored_stale)

text \<open>The state in which the persistent store is read: a stale cache entry has been deleted.\<close>

lemma getFor_unfold_stale:
  assumes reach: "\<forall>d. attributionData s (mapKey q ch) = Some d
                    \<longrightarrow> \<not> js_gt (js_prop d ''expiresAt'') (now e)"
  shows "getAttributionDataFor s e q ch
           = getStoredAttribution (s\<lparr>attributionData := (attributionData s)(mapKey q ch := None)\<rparr>) e q ch"
proof (cases "attributionData s (mapKey q ch)")
  case None
  then have "(attributionData s)(mapKey q ch := None) = attributionData s"
    by (simp add: fun_upd_idem_iff)
  then show ?thesis using None by (simp add: getAttributionDataFor_def)
next
  case (Some d)
  then show ?thesis using reach by (simp add: getAttributionDataFor_def)
qed

lemma getFor_absent:
  assumes cust: "truthy (session_customerId s)" and ok: "storage_ok e"
    and stale: "\<not> js_gt (js_prop r ''expiresAt'') (now e)"
    and reach: "\<forall>d. attributionData s (mapKey q ch) = Some d
                    \<longrightarrow> \<not> js_gt (js_prop d ''expiresAt'') (now e)"
    and run: "getAttributionDataFor s e q ch = (res, s')"
  shows "res \<noteq> Some r \<and> attributionData s' (mapKey q ch) \<noteq> Some r
       \<and> persistent_entry s' e (storageKey s q ch) \<noteq> Some (Json (Obj r))"
proof -
  let ?s1 = "s\<lparr>attributionData := (attributionData s)(mapKey q ch := None)\<rparr>"
  have run1: "getStoredAttribution ?s1 e q ch = (res, s')"
    using run getFor_unfold_stale [OF reach] by simp
  have "res \<noteq> Some r \<and> attributionData s' (mapKey q ch) \<noteq> Some r
       \<and> persistent_entry s' e (storageKey ?s1 q ch) \<noteq> Some (Json (Obj r))"
    by (rule getStored_absent [OF _ ok stale _ run1]) (simp_all add: cust)
  then show ?thesis by simp
qed

lemma getFor_deletes:
  assumes cust: "truthy (session_customerId s)" and ok: "storage_ok e"
    and stale: "\<not> js_gt (js_prop r ''expiresAt'') (now e)"
    and reach: "\<forall>d. attributionData s (mapKey q ch) = Some d
                    \<longrightarrow> \<not> js_gt (js_prop d ''expiresAt'') (now e)"
    and stored: "persistent_entry s e (storageKey s q ch) = Some (Json (Obj r))"
  shows "fst (getAttributionDataFor s e q ch) = None
       \<and> attributionData (snd (getAttributionDataFor s e q ch)) (mapKey q ch) = None
       \<and> persistent_entry (snd (getAttributionDataFor s e q ch)) e (storageKey s q ch) = None"
proof -
  let ?s1 = "s\<lparr>attributionData := (attributionData s)(mapKey q ch := None)\<rparr>"
  have "fst (getStoredAttribution ?s1 e q ch) = None
       \<and> attributionData (snd (getStoredAttribution ?s1 e q ch)) (mapKey q ch) = None
       \<and> persistent_entry (snd (getStoredAttribution ?s1 e q ch)) e (storageKey ?s1 q ch) = None"
    by (rule getStored_deletes [OF _ ok stale]) (simp_all add: cust stored)
  then show ?thesis
    using getFor_unfold_stale [OF reach] by simp
qed

lemma js_gt_antimono:
  assumes "\<not> js_gt v t" and "t \<le> t2"
  shows "\<not> js_gt v t2"
proof (cases "toNumber v")
  case NaN
  then show ?thesis by (simp add: js_gt_def)
next
  case (Infinite positive)
  then show ?thesis using assms(1) by (simp add: js_gt_def)
next
  case (Decimal m k)
  show ?thesis
  proof (cases "0 \<le> k")
    case True
    then show ?thesis using assms Decimal by (simp add: js_gt_def)
  next
    case False
    have le: "t * 10 ^ nat (- k) \<le> t2 * 10 ^ nat (- k)"
      using assms(2) by (intro mult_right_mono) simp_all
    have "\<not> t * 10 ^ nat (- k) < m"
      using assms(1) Decimal False by (simp add: js_gt_def)
    then have "\<not> t2 * 10 ^ nat (- k) < m"
      using le by linarith
    then show ?thesis
      using Decimal False by (simp add: js_gt_def)
  qed
qed

lemma frame_at:
  assumes "frame e ks Ks s s'" and "k \<notin> ks" and "K \<notin> Ks"
  shows "attributionData s' k = attributionData s k \<and> persistent_entry s' e K = persistent_entry s e K
       \<and> session_customerId s' = session_customerId s \<and> storageKey s' = storageKey s"
  using assms frame_storageKey [OF assms(1)] by (simp add: frame_def)

lemma storageKey_channel_neq: "storageKey s q True \<noteq> storageKey s q False"
  by (simp add: storageKey_eq)

lemma getData_absent:
  assumes cust: "truthy (session_customerId s)" and ref: "truthy q" and ok: "storage_ok e"
    and stale: "\<not> js_gt (js_prop r ''expiresAt'') (now e)"
    and reach: "\<forall>d. attributionData s (mapKey q ch) = Some d
                    \<longrightarrow> \<not> js_gt (js_prop d ''expiresAt'') (now e)"
    and consulted: "ch \<or> fst (getAttributionDataFor s e q True) = None"
  shows "attributionData (snd (getAttributionData s e q)) (mapKey q ch) \<noteq> Some r
       \<and> persistent_entry (snd (getAttributionData s e q)) e (storageKey s q ch) \<noteq> Some (Json (Obj r))"
proof -
  obtain r1 s1 where g1: "getAttributionDataFor s e q True = (r1, s1)"
    by (cases "getAttributionDataFor s e q True")
  obtain r2 s2 where g2: "getAttributionDataFor s1 e q False = (r2, s2)"
    by (cases "getAttributionDataFor s1 e q False")
  note f1 = getFor_frame [OF g1]
  note f2 = getFor_frame [OF g2]
  have k1: "storageKey s1 = storageKey s"
    by (rule frame_storageKey [OF f1])
  show ?thesis
  proof (cases ch)
    case True
    have a: "r1 \<noteq> Some r \<and> attributionData s1 (mapKey q True) \<noteq> Some r
           \<and> persistent_entry s1 e (storageKey s q True) \<noteq> Some (Json (Obj r))"
      using getFor_absent [OF cust ok stale _ g1] reach True by simp
    show ?thesis
    proof (cases r1)
      case (Some d)
      then show ?thesis
        using a True g1 cust ref by (simp add: getAttributionData_def)
    next
      case None
      have "attributionData s2 (mapKey q True) = attributionData s1 (mapKey q True)
          \<and> persistent_entry s2 e (storageKey s q True) = persistent_entry s1 e (storageKey s q True)"
        using frame_at [OF f2, of "mapKey q True" "storageKey s q True"]
        by (simp add: k1 storageKey_eq)
      then show ?thesis
        using a True None g1 g2 cust ref by (simp add: getAttributionData_def)
    qed
  next
    case False
    then have n: "r1 = None"
      using consulted g1 by simp
    have same: "attributionData s1 (mapKey q False) = attributionData s (mapKey q False)
          \<and> persistent_entry s1 e (storageKey s q False) = persistent_entry s e (storageKey s q False)
          \<and> session_customerId s1 = session_customerId s \<and> storageKey s1 = storageKey s"
      using frame_at [OF f1, of "mapKey q False" "storageKey s q False"]
      by (simp add: storageKey_eq)
    have "r2 \<noteq> Some r \<and> attributionData s2 (mapKey q False) \<noteq> Some r
           \<and> persistent_entry s2 e (storageKey s1 q False) \<noteq> Some (Json (Obj r))"
      using reach False same cust by (intro getFor_absent [OF _ ok stale _ g2]) simp_all
    then show ?thesis
      using False n g1 g2 cust ref by (simp add: getAttributionData_def k1)
  qed
qed

lemma getData_shadowed:
  assumes cust: "truthy (session_customerId s)" and ref: "truthy q"
    and hit: "fst (getAttributionDataFor s e q True) \<noteq> None"
  shows "attributionData (snd (getAttributionData s e q)) (mapKey q False)
           = attributionData s (mapKey q False)
       \<and> persistent_entry (snd (getAttributionData s e q)) e (storageKey s q False)
           = persistent_entry s e (storageKey s q False)"
proof -
  obtain r1 s1 where g1: "getAttributionDataFor s e q True = (r1, s1)"
    by (cases "getAttributionDataFor s e q True")
  then obtain d where d: "r1 = Some d"
    using hit by auto
  have "getAttributionData s e q = (Some d, s1)"
    using cust ref g1 d by (simp add: getAttributionData_def)
  then show ?thesis
    using frame_at [OF getFor_frame [OF g1], of "mapKey q False" "storageKey s q False"]
    by (simp add: storageKey_eq)
qed

text \<open>
  Claim C2 as the specification states it does not hold for every stored record:
  \<^verbatim>\<open>_getAttributionData\<close> reads the organic channel only when the sponsored read
  returned nothing. Here the store holds a live sponsored record and an organic record
  whose \<^verbatim>\<open>expiresAt\<close> is before the clock; the resolve returns the sponsored record,
  and the expired organic record is still in the cache and in \<^verbatim>\<open>localStorage\<close> after
  it, and after a second resolve as well.
\<close>

theorem expired_organic_counterexample:
  "js_prop expired_organic ''expiresAt'' = Num 4000 \<and> now demo_env = 5000
   \<and> attributionData shadowed_sdk ''SKU1_o'' = Some expired_organic
   \<and> localStorage shadowed_sdk ''pa_attribution_cust1_SKU1_o'' = Some (Json (Obj expired_organic))
   \<and> fst (getAttributionData shadowed_sdk demo_env (Str ''SKU1'')) = Some demo_sponsored
   \<and> attributionData (snd (getAttributionData shadowed_sdk demo_env (Str ''SKU1''))) ''SKU1_o''
        = Some expired_organic
   \<and> localStorage (snd (getAttributionData shadowed_sdk demo_env (Str ''SKU1'')))
        ''pa_attribution_cust1_SKU1_o'' = Some (Json (Obj expired_organic))
   \<and> localStorage
        (snd (getAttributionData (snd (getAttributionData shadowed_sdk demo_env (Str ''SKU1'')))
                demo_env (Str ''SKU1'')))
        ''pa_attribution_cust1_SKU1_o'' = Some (Json (Obj expired_organic))"
proof -
  have k: "mapKey (Str ''SKU1'') True = ''SKU1_s''"
    by (simp add: mapKey_def typeSuffix_def)
  have c: "attributionData shadowed_sdk ''SKU1_s'' = Some demo_sponsored"
    "truthy (session_customerId shadowed_sdk)"
    by (simp_all add: shadowed_sdk_def)
  have l: "js_gt (js_prop demo_sponsored ''expiresAt'') (now demo_env)"
    by (simp add: js_gt_def demo_sponsored_def demo_env_def js_prop_def)
  have "getAttributionDataFor shadowed_sdk demo_env (Str ''SKU1'') True
          = (Some demo_sponsored, shadowed_sdk)"
    using c(1) l by (simp add: getAttributionDataFor_def k)
  then have g: "getAttributionData shadowed_sdk demo_env (Str ''SKU1'')
                  = (Some demo_sponsored, shadowed_sdk)"
    using c(2) by (simp add: getAttributionData_def)
  show ?thesis
    by (simp add: g) (simp add: shadowed_sdk_def expired_organic_def demo_env_def js_prop_def)
qed

text \<open>
  Claim C2, as amended. Let a record \<open>r\<close> with \<^verbatim>\<open>expiresAt <= now\<close> be stored for a
  product and a channel (in the cache, in the persistent store, or in both), in a
  session with a customerId and with a working store, the cache entry of its key, if
  there is one, being itself not live. No resolve returns \<open>r\<close>, at that time or later.
  A read of the channel of \<open>r\<close> leaves \<open>r\<close> neither in the cache nor in the persistent
  store; where the persistent store held \<open>r\<close>, the read returns nothing and both
  entries are gone. \<^verbatim>\<open>_getAttributionData\<close> reads the sponsored channel always and the
  organic channel when the sponsored read returned nothing, and then \<open>r\<close> is deleted;
  when \<open>r\<close> is organic and the sponsored read returned a record, the entries of \<open>r\<close>
  are left as they were.
\<close>

theorem expired_record_deleted_on_read:
  assumes cust: "truthy (session_customerId s)" and ref: "truthy productRefId"
    and ok: "storage_ok e"
    and stale: "stale_at (now e) r"
    and stored: "attributionData s (mapKey productRefId ch) = Some r \<or>
                 persistent_entry s e (storageKey s productRefId ch) = Some (Json (Obj r))"
    and reach: "\<forall>d. attributionData s (mapKey productRefId ch) = Some d
                    \<longrightarrow> \<not> js_gt (js_prop d ''expiresAt'') (now e)"
  shows "fst (getAttributionDataFor s e productRefId ch) \<noteq> Some r
       \<and> attributionData (snd (getAttributionDataFor s e productRefId ch)) (mapKey productRefId ch)
           \<noteq> Some r
       \<and> persistent_entry (snd (getAttributionDataFor s e productRefId ch)) e
           (storageKey s productRefId ch) \<noteq> Some (Json (Obj r))
       \<and> (persistent_entry s e (storageKey s productRefId ch) = Some (Json (Obj r)) \<longrightarrow>
            fst (getAttributionDataFor s e productRefId ch) = None
          \<and> attributionData (snd (getAttributionDataFor s e productRefId ch))
               (mapKey productRefId ch) = None
          \<and> persistent_entry (snd (getAttributionDataFor s e productRefId ch)) e
               (storageKey s productRefId ch) = None)
       \<and> fst (getAttributionData s e productRefId) \<noteq> Some r
       \<and> (ch \<or> fst (getAttributionDataFor s e productRefId True) = None \<longrightarrow>
            attributionData (snd (getAttributionData s e productRefId)) (mapKey productRefId ch)
              \<noteq> Some r
          \<and> persistent_entry (snd (getAttributionData s e productRefId)) e
               (storageKey s productRefId ch) \<noteq> Some (Json (Obj r)))
       \<and> (\<not> ch \<and> fst (getAttributionDataFor s e productRefId True) \<noteq> None \<longrightarrow>
            attributionData (snd (getAttributionData s e productRefId)) (mapKey productRefId ch)
              = attributionData s (mapKey productRefId ch)
          \<and> persistent_entry (snd (getAttributionData s e productRefId)) e
               (storageKey s productRefId ch)
              = persistent_entry s e (storageKey s productRefId ch))
       \<and> (\<forall>e2. now e \<le> now e2 \<longrightarrow>
            fst (getAttributionData (snd (getAttributionData s e productRefId)) e2 productRefId)
              \<noteq> Some r)"
proof -
  note ngt = stale_at_not_gt [OF stale]
  have p1: "fst (getAttributionDataFor s e productRefId ch) \<noteq> Some r
       \<and> attributionData (snd (getAttributionDataFor s e productRefId ch)) (mapKey productRefId ch)
           \<noteq> Some r
       \<and> persistent_entry (snd (getAttributionDataFor s e productRefId ch)) e
           (storageKey s productRefId ch) \<noteq> Some (Json (Obj r))"
    by (rule getFor_absent [OF cust ok ngt reach]) simp
  have p2: "persistent_entry s e (storageKey s productRefId ch) = Some (Json (Obj r)) \<longrightarrow>
            fst (getAttributionDataFor s e productRefId ch) = None
          \<and> attributionData (snd (getAttributionDataFor s e productRefId ch))
               (mapKey productRefId ch) = None
          \<and> persistent_entry (snd (getAttributionDataFor s e productRefId ch)) e
               (storageKey s productRefId ch) = None"
    using getFor_deletes [OF cust ok ngt reach] by blast
  have never: "fst (getAttributionData s0 e2 productRefId) \<noteq> Some r" if "now e \<le> now e2" for s0 e2
  proof
    assume a: "fst (getAttributionData s0 e2 productRefId) = Some r"
    then have "getAttributionData s0 e2 productRefId
                 = (Some r, snd (getAttributionData s0 e2 productRefId))"
      by (metis prod.collapse)
    then have "js_gt (js_prop r ''expiresAt'') (now e2)"
      by (rule getData_result_live)
    then show False
      using js_gt_antimono [OF ngt that] by simp
  qed
  have p3: "fst (getAttributionData s e productRefId) \<noteq> Some r"
    by (rule never) simp
  have p4: "ch \<or> fst (getAttributionDataFor s e productRefId True) = None \<longrightarrow>
            attributionData (snd (getAttributionData s e productRefId)) (mapKey productRefId ch)
              \<noteq> Some r
          \<and> persistent_entry (snd (getAttributionData s e productRefId)) e
               (storageKey s productRefId ch) \<noteq> Some (Json (Obj r))"
    using getData_absent [OF cust ref ok ngt reach] by blast
  have p5: "attributionData (snd (getAttributionData s e productRefId)) (mapKey productRefId ch)
              = attributionData s (mapKey productRefId ch)
          \<and> persistent_entry (snd (getAttributionData s e productRefId)) e
               (storageKey s productRefId ch)
              = persistent_entry s e (storageKey s productRefId ch)"
    if "\<not> ch" and "fst (getAttributionDataFor s e productRefId True) \<noteq> None"
    using that getData_shadowed [OF cust ref] by simp
  show ?thesis
    using p1 p2 p3 p4 p5 never by blast
qed

lemma stale_keys:
  "storageKey stale_sdk (Str ''SKU1'') True = ''pa_attribution_cust1_SKU1_s''"
  by (simp add: storageKey_def typeSuffix_def stale_sdk_def demo_config_def)

theorem expired_record_deleted_on_read_witness:
  "truthy (session_customerId stale_sdk) \<and> truthy (Str ''SKU1'') \<and> storage_ok demo_env
   \<and> stale_at (now demo_env) demo_expired
   \<and> attributionData stale_sdk (mapKey (Str ''SKU1'') True) = Some demo_expired
   \<and> persistent_entry stale_sdk demo_env (storageKey stale_sdk (Str ''SKU1'') True)
        = Some (Json (Obj demo_expired))
   \<and> fst (getAttributionDataFor stale_sdk demo_env (Str ''SKU1'') True) = None
   \<and> attributionData (snd (getAttributionDataFor stale_sdk demo_env (Str ''SKU1'') True))
        (mapKey (Str ''SKU1'') True) = None
   \<and> persistent_entry (snd (getAttributionDataFor stale_sdk demo_env (Str ''SKU1'') True)) demo_env
        (storageKey stale_sdk (Str ''SKU1'') True) = None"
proof -
  have h1: "truthy (session_customerId stale_sdk)" by (simp add: stale_sdk_def)
  have h2: "truthy (Str ''SKU1'')" by simp
  have h3: "storage_ok demo_env" by (simp add: storage_ok_def demo_env_def)
  have h4: "stale_at (now demo_env) demo_expired"
    by (simp add: stale_at_def demo_env_def demo_expired_def js_prop_def)
  have c: "attributionData stale_sdk (mapKey (Str ''SKU1'') True) = Some demo_expired"
    by (simp add: demo_keys) (simp add: stale_sdk_def)
  have p: "persistent_entry stale_sdk demo_env (storageKey stale_sdk (Str ''SKU1'') True)
             = Some (Json (Obj demo_expired))"
    by (simp add: stale_keys persistent_entry_def uses_localStorage_def)
       (simp add: stale_sdk_def demo_config_def demo_env_def)
  have h6: "\<forall>d. attributionData stale_sdk (mapKey (Str ''SKU1'') True) = Some d
              \<longrightarrow> \<not> js_gt (js_prop d ''expiresAt'') (now demo_env)"
    using stale_at_not_gt [OF h4] by (simp add: c)
  have h5: "attributionData stale_sdk (mapKey (Str ''SKU1'') True) = Some demo_expired \<or>
            persistent_entry stale_sdk demo_env (storageKey stale_sdk (Str ''SKU1'') True)
              = Some (Json (Obj demo_expired))"
    using c by simp
  show ?thesis
    using expired_record_deleted_on_read [OF h1 h2 h3 h4 h5 h6] h1 h2 h3 h4 c p by simp
qed

section \<open>Add to cart\<close>

lemma getData_pendingEvents:
  "pendingEvents (snd (getAttributionData s e q)) = pendingEvents s"
  using getData_frame [of s e q "fst (getAttributionData s e q)" "snd (getAttributionData s e q)"]
  by (simp add: frame_def)

text \<open>
  Claim C4. When the event data of \<^verbatim>\<open>trackAddToCart\<close> has no (truthy) \<^verbatim>\<open>clickId\<close> and
  \<^verbatim>\<open>_getAttributionData\<close> resolves no record for the product, the call throws the error
  "Add to Cart requires clickId" and the queue of events to send is unchanged.
\<close>

theorem add_to_cart_requires_attribution:
  assumes "object_of (js_prop eventData ''product'') = Inr product"
    and "\<not> truthy (js_prop eventData ''clickId'')"
    and "fst (getAttributionData s e (js_prop product ''refId'')) = None"
  shows "fst (trackAddToCart s e eventData)
           = Inl (Error ''Add to Cart requires clickId. Generate a Click event first.'')
       \<and> pendingEvents (snd (trackAddToCart s e eventData)) = pendingEvents s"
  using assms getData_pendingEvents [of s e "js_prop product ''refId''"]
  by (simp add: trackAddToCart_def Let_def)

lemma empty_getData:
  "getAttributionData empty_sdk demo_env (Str ''SKU1'') = (None, empty_sdk)"
proof -
  have r: "\<not> read_throws demo_env" by (simp add: demo_env_def)
  have n: "no_entry empty_sdk demo_env (Str ''SKU1'') ch" for ch
    by (simp add: no_entry_def persistent_entry_def empty_sdk_def)
  show ?thesis
    using getFor_no_entry [OF r n]
    by (simp add: getAttributionData_def empty_sdk_def)
qed

theorem add_to_cart_requires_attribution_witness:
  "object_of (js_prop demo_cart ''product'')
     = Inr [(''refId'', Str ''SKU1''), (''quantity'', Num 1), (''price'', Num 10)]
   \<and> \<not> truthy (js_prop demo_cart ''clickId'')
   \<and> fst (getAttributionData empty_sdk demo_env (Str ''SKU1'')) = None
   \<and> fst (trackAddToCart empty_sdk demo_env demo_cart)
        = Inl (Error ''Add to Cart requires clickId. Generate a Click event first.'')
   \<and> pendingEvents (snd (trackAddToCart empty_sdk demo_env demo_cart)) = []"
proof -
  have h1: "object_of (js_prop demo_cart ''product'')
     = Inr [(''refId'', Str ''SKU1''), (''quantity'', Num 1), (''price'', Num 10)]"
    by (simp add: demo_cart_def js_prop_def)
  have h2: "\<not> truthy (js_prop demo_cart ''clickId'')"
    by (simp add: demo_cart_def js_prop_def)
  have h3: "fst (getAttributionData empty_sdk demo_env
              (js_prop [(''refId'', Str ''SKU1''), (''quantity'', Num 1), (''price'', Num 10)] ''refId'')) = None"
    by (simp add: js_prop_def empty_getData)
  have e: "pendingEvents empty_sdk = []" by (simp add: empty_sdk_def)
  show ?thesis
    using add_to_cart_requires_attribution [OF h1 h2 h3] h1 h2 h3 e
    by (simp add: js_prop_def)
qed

lemma queueEvent_fields:
  "attributionData (snd (queueEvent s ty ev)) = attributionData s"
  "localStorage (snd (queueEvent s ty ev)) = localStorage s"
  "cookie (snd (queueEvent s ty ev)) = cookie s"
  "console_error (snd (queueEvent s ty ev)) = console_error s"
  "config (snd (queueEvent s ty ev)) = config s"
  "session_customerId (snd (queueEvent s ty ev)) = session_customerId s"
  "pendingEvents (snd (queueEvent s ty ev)) = pendingEvents s @ [(ty, cleanObject ev)]"
  "fst (queueEvent s ty ev) = cleanObject ev"
  by (simp_all add: queueEvent_def Let_def)

lemma js_prop_assign_notin:
  "f \<notin> fst ` set kvs \<Longrightarrow> js_prop (assign ob kvs) f = js_prop ob f"
proof (induction kvs arbitrary: ob)
  case Nil
  show ?case by (simp add: js_prop_assign_Nil)
next
  case (Cons kv kvs)
  then show ?case
    by (simp add: assign_Cons js_prop_update)
qed

lemma js_prop_assign_in:
  "distinct (map fst kvs) \<Longrightarrow> (f, v) \<in> set kvs \<Longrightarrow> js_prop (assign ob kvs) f = v"
proof (induction kvs arbitrary: ob)
  case Nil
  then show ?case by simp
next
  case (Cons kv kvs)
  show ?case
  proof (cases "(f, v) = kv")
    case True
    have "fst kv \<notin> fst ` set kvs"
      using Cons.prems(1) by simp
    then have "f \<notin> fst ` set kvs"
      using True by (metis fst_conv)
    then have "js_prop (assign (AList.update f v ob) kvs) f = js_prop (AList.update f v ob) f"
      by (rule js_prop_assign_notin)
    then show ?thesis
      using True by (auto simp: assign_Cons js_prop_update)
  next
    case False
    then show ?thesis
      using Cons by (simp add: assign_Cons)
  qed
qed

lemma core_not_sponsored:
  "f \<in> set coreAttributionFields \<Longrightarrow> f \<notin> set sponsoredOnlyFields"
  by (auto simp: coreAttributionFields_def sponsoredOnlyFields_def)

lemma merge_core_fields:
  assumes "f \<in> set coreAttributionFields"
  shows "js_prop (mergeAttributionData ev a) f = js_prop a f"
proof -
  let ?core = "[(''recommenderId'', js_prop a ''recommenderId''),
             (''campaignId'', js_prop a ''campaignId''),
             (''tacticId'', js_prop a ''tacticId''),
             (''tacticLabel'', js_prop a ''tacticLabel''),
             (''bannerId'', js_prop a ''bannerId''),
             (''placementId'', js_prop a ''placementId''),
             (''widgetId'', js_prop a ''widgetId''),
             (''routeId'', js_prop a ''routeId''),
             (''retailBoostCollectionCampaignId'', js_prop a ''retailBoostCollectionCampaignId'')]"
  have m: "(f, js_prop a f) \<in> set ?core"
    using assms by (auto simp: coreAttributionFields_def)
  have d: "distinct (map fst ?core)" by simp
  have one: "js_prop (assign ev ?core) f = js_prop a f"
    by (rule js_prop_assign_in [OF d m])
  have two: "js_prop (assign (assign ev ?core) kvs) f = js_prop a f"
    if "fst ` set kvs = set sponsoredOnlyFields" for kvs
    using that core_not_sponsored [OF assms] one by (simp add: js_prop_assign_notin)
  show ?thesis
    unfolding mergeAttributionData_def Let_def
    by (simp only: one two sponsoredOnlyFields_def list.set image_insert image_empty fst_conv
          if_distrib [of "\<lambda>ob. js_prop ob f"] if_cancel)
qed

lemma merge_other_field:
  assumes "f \<notin> set coreAttributionFields" "f \<notin> set sponsoredOnlyFields"
  shows "js_prop (mergeAttributionData ev a) f = js_prop ev f"
  using assms
  unfolding mergeAttributionData_def Let_def coreAttributionFields_def sponsoredOnlyFields_def
  by (simp add: js_prop_assign_notin)

lemma merge_organic_field:
  assumes "\<not> truthy (js_prop a ''isSponsored'')" "f \<in> set sponsoredOnlyFields"
  shows "js_prop (mergeAttributionData ev a) f = js_prop ev f"
  using assms
  unfolding mergeAttributionData_def Let_def sponsoredOnlyFields_def
  by (auto simp: js_prop_assign_notin)

text \<open>
  Claim C10. When the event data of \<^verbatim>\<open>trackAddToCart\<close> carries a non-empty \<^verbatim>\<open>clickId\<close>,
  the cache, both persistent stores and the error log are unchanged: nothing is
  resolved and nothing is deleted. The queued event is the cleaned merge of the base
  event with the caller's event data, so every attribution field of the merge, and
  the \<^verbatim>\<open>clickId\<close>, is the caller's.
\<close>

theorem explicit_clickId_bypasses_store:
  assumes "truthy (js_prop eventData ''clickId'')"
  shows "attributionData (snd (trackAddToCart s e eventData)) = attributionData s
       \<and> localStorage (snd (trackAddToCart s e eventData)) = localStorage s
       \<and> cookie (snd (trackAddToCart s e eventData)) = cookie s
       \<and> console_error (snd (trackAddToCart s e eventData)) = console_error s
       \<and> (\<forall>product. object_of (js_prop eventData ''product'') = Inr product \<longrightarrow>
            fst (trackAddToCart s e eventData)
              = Inr (cleanObject (mergeAttributionData
                       (addToCartBaseEvent e eventData product None) eventData))
          \<and> pendingEvents (snd (trackAddToCart s e eventData))
              = pendingEvents s @
                [(''add-to-carts'', cleanObject (mergeAttributionData
                       (addToCartBaseEvent e eventData product None) eventData))]
          \<and> (\<forall>f \<in> set coreAttributionFields.
                js_prop (mergeAttributionData
                           (addToCartBaseEvent e eventData product None) eventData) f
                  = js_prop eventData f)
          \<and> js_prop (mergeAttributionData
                        (addToCartBaseEvent e eventData product None) eventData) ''clickId''
               = js_prop eventData ''clickId'')"
proof -
  have c: "js_prop (mergeAttributionData (addToCartBaseEvent e eventData product None) eventData)
             ''clickId'' = js_prop eventData ''clickId''" for product
    using assms
    by (simp add: merge_other_field coreAttributionFields_def sponsoredOnlyFields_def)
       (simp add: addToCartBaseEvent_def js_prop_def js_or_def)
  show ?thesis
    using assms c
    by (cases "object_of (js_prop eventData ''product'')")
       (simp_all add: trackAddToCart_def Let_def queueEvent_def merge_core_fields)
qed

theorem explicit_clickId_bypasses_store_witness:
  "truthy (js_prop demo_cart_with_click ''clickId'')
   \<and> object_of (js_prop demo_cart_with_click ''product'')
        = Inr [(''refId'', Str ''SKU1''), (''quantity'', Num 1), (''price'', Num 10)]
   \<and> attributionData (snd (trackAddToCart demo_sdk demo_env demo_cart_with_click))
        = attributionData demo_sdk
   \<and> localStorage (snd (trackAddToCart demo_sdk demo_env demo_cart_with_click))
        = localStorage demo_sdk
   \<and> cookie (snd (trackAddToCart demo_sdk demo_env demo_cart_with_click)) = cookie demo_sdk
   \<and> js_prop (mergeAttributionData
                (addToCartBaseEvent demo_env demo_cart_with_click
                   [(''refId'', Str ''SKU1''), (''quantity'', Num 1), (''price'', Num 10)] None)
                demo_cart_with_click) ''widgetId'' = Str ''widget-123''
   \<and> js_prop (mergeAttributionData
                (addToCartBaseEvent demo_env demo_cart_with_click
                   [(''refId'', Str ''SKU1''), (''quantity'', Num 1), (''price'', Num 10)] None)
                demo_cart_with_click) ''clickId'' = Str ''manual-click-id-123''"
proof -
  have h1: "truthy (js_prop demo_cart_with_click ''clickId'')"
    by (simp add: demo_cart_with_click_def js_prop_def)
  have h2: "object_of (js_prop demo_cart_with_click ''product'')
        = Inr [(''refId'', Str ''SKU1''), (''quantity'', Num 1), (''price'', Num 10)]"
    by (simp add: demo_cart_with_click_def js_prop_def)
  have w: "''widgetId'' \<in> set coreAttributionFields"
    by (simp add: coreAttributionFields_def)
  have v: "js_prop demo_cart_with_click ''widgetId'' = Str ''widget-123''"
    "js_prop demo_cart_with_click ''clickId'' = Str ''manual-click-id-123''"
    by (simp_all add: demo_cart_with_click_def js_prop_def)
  show ?thesis
    using explicit_clickId_bypasses_store [OF h1, of demo_sdk demo_env] h1 h2 w v
    by simp
qed

section \<open>Sponsored-only fields\<close>

lemma enrichProductData_sponsored_field:
  assumes "f \<in> set sponsoredOnlyFields"
  shows "js_prop (enrichProductData product) f
           = (if f = ''supplierId'' then Undefined else js_prop product f)"
  using assms
  by (auto simp: sponsoredOnlyFields_def enrichProductData_def js_prop_def)

lemma addToCartBaseEvent_sponsored_field:
  assumes "f \<in> set sponsoredOnlyFields"
  shows "js_prop (addToCartBaseEvent e eventData product attribution) f = Undefined"
  using assms
  by (auto simp: sponsoredOnlyFields_def addToCartBaseEvent_def js_prop_def)

text \<open>
  Claim C5 as the specification states it does not hold: \<^verbatim>\<open>_enrichProductData\<close> copies
  the sponsored-only fields of the caller's product, and the merge with an organic
  record leaves them in place. Here the product enriched from the organic record of SKU1
  contains the caller's \<^verbatim>\<open>adSetId\<close>.
\<close>

theorem organic_enrichment_counterexample:
  "snd (fst (prepareProductWithAttribution organic_sdk demo_env demo_product)) = Some demo_organic
   \<and> js_prop demo_organic ''isSponsored'' = Bool False
   \<and> js_prop (fst (fst (prepareProductWithAttribution organic_sdk demo_env demo_product))) ''adSetId''
        = Str ''AS9''"
proof -
  have r: "\<not> read_throws demo_env" by (simp add: demo_env_def)
  have n: "no_entry organic_sdk demo_env (Str ''SKU1'') True"
    by (simp add: no_entry_def persistent_entry_def organic_sdk_def mapKey_def typeSuffix_def)
  have h: "holds_record organic_sdk demo_env (Str ''SKU1'') False demo_organic"
    by (simp add: holds_record_def organic_sdk_def mapKey_def typeSuffix_def)
  have l: "js_gt (js_prop demo_organic ''expiresAt'') (now demo_env)"
    by (simp add: js_gt_def demo_organic_def demo_env_def js_prop_def)
  have u: "(attributionData organic_sdk)(mapKey (Str ''SKU1'') False \<mapsto> demo_organic)
             = attributionData organic_sdk"
    by (simp add: organic_sdk_def mapKey_def typeSuffix_def)
  have g: "getAttributionData organic_sdk demo_env (Str ''SKU1'') = (Some demo_organic, organic_sdk)"
    using getFor_no_entry [OF r n] getFor_holds [OF r h l] u
    by (simp add: getAttributionData_def) (simp add: organic_sdk_def)
  have f: "js_prop demo_organic ''isSponsored'' = Bool False"
    by (simp add: demo_organic_def js_prop_def)
  have p: "js_prop demo_product ''refId'' = Str ''SKU1''" "js_prop demo_product ''adSetId'' = Str ''AS9''"
    by (simp_all add: demo_product_def js_prop_def)
  have m: "js_prop (mergeAttributionData (enrichProductData demo_product) demo_organic) ''adSetId''
             = Str ''AS9''"
    using merge_organic_field [of demo_organic "''adSetId''" "enrichProductData demo_product"]
          enrichProductData_sponsored_field [of "''adSetId''" demo_product]
    by (simp add: f p sponsoredOnlyFields_def)
  show ?thesis
    using g f m by (simp add: prepareProductWithAttribution_def p Let_def)
qed

text \<open>
  Claim C5, as amended. A product enriched from an organic record takes none of the
  sponsored-only fields from the record: \<^verbatim>\<open>_mergeAttributionData\<close> leaves them as they
  are in the data it merges into. In \<^verbatim>\<open>_prepareProductWithAttribution\<close> each of them
  is therefore the value the caller's product carries (\<^verbatim>\<open>supplierId\<close>, which
  \<^verbatim>\<open>_enrichProductData\<close> does not copy, is absent), and in the add-to-cart event all of
  them are absent.
\<close>

theorem organic_enrichment_keeps_caller_fields:
  assumes "prepareProductWithAttribution s e product = ((enriched, Some a), s')"
    and "\<not> truthy (js_prop a ''isSponsored'')"
  shows "(\<forall>f \<in> set sponsoredOnlyFields.
            js_prop enriched f = (if f = ''supplierId'' then Undefined else js_prop product f))
       \<and> (\<forall>ev. \<forall>f \<in> set sponsoredOnlyFields. js_prop (mergeAttributionData ev a) f = js_prop ev f)
       \<and> (\<forall>e2 eventData p. \<forall>f \<in> set sponsoredOnlyFields.
            js_prop (mergeAttributionData (addToCartBaseEvent e2 eventData p (Some a)) a) f = Undefined)"
proof -
  have "enriched = mergeAttributionData (enrichProductData product) a"
    using assms(1)
    by (auto simp: prepareProductWithAttribution_def Let_def split: prod.splits)
  then show ?thesis
    using assms(2)
    by (simp add: merge_organic_field enrichProductData_sponsored_field
                  addToCartBaseEvent_sponsored_field)
qed

theorem organic_enrichment_keeps_caller_fields_witness:
  "prepareProductWithAttribution organic_sdk demo_env demo_product
     = ((mergeAttributionData (enrichProductData demo_product) demo_organic, Some demo_organic),
        organic_sdk)
   \<and> \<not> truthy (js_prop demo_organic ''isSponsored'')
   \<and> js_prop (mergeAttributionData (enrichProductData demo_product) demo_organic) ''costPerClick''
        = Undefined
   \<and> js_prop (mergeAttributionData (enrichProductData demo_product) demo_organic) ''supplierId''
        = Undefined"
proof -
  have r: "\<not> read_throws demo_env" by (simp add: demo_env_def)
  have n: "no_entry organic_sdk demo_env (Str ''SKU1'') True"
    by (simp add: no_entry_def persistent_entry_def organic_sdk_def mapKey_def typeSuffix_def)
  have h: "holds_record organic_sdk demo_env (Str ''SKU1'') False demo_organic"
    by (simp add: holds_record_def organic_sdk_def mapKey_def typeSuffix_def)
  have l: "js_gt (js_prop demo_organic ''expiresAt'') (now demo_env)"
    by (simp add: js_gt_def demo_organic_def demo_env_def js_prop_def)
  have u: "(attributionData organic_sdk)(mapKey (Str ''SKU1'') False \<mapsto> demo_organic)
             = attributionData organic_sdk"
    by (simp add: organic_sdk_def mapKey_def typeSuffix_def)
  have g: "getAttributionData organic_sdk demo_env (Str ''SKU1'') = (Some demo_organic, organic_sdk)"
    using getFor_no_entry [OF r n] getFor_holds [OF r h l] u
    by (simp add: getAttributionData_def) (simp add: organic_sdk_def)
  have p: "js_prop demo_product ''refId'' = Str ''SKU1''"
    "js_prop demo_product ''costPerClick'' = Undefined"
    by (simp_all add: demo_product_def js_prop_def)
  have h1: "prepareProductWithAttribution organic_sdk demo_env demo_product
     = ((mergeAttributionData (enrichProductData demo_product) demo_organic, Some demo_organic),
        organic_sdk)"
    using g by (simp add: prepareProductWithAttribution_def p Let_def)
  have h2: "\<not> truthy (js_prop demo_organic ''isSponsored'')"
    by (simp add: demo_organic_def js_prop_def)
  have m: "''costPerClick'' \<in> set sponsoredOnlyFields" "''supplierId'' \<in> set sponsoredOnlyFields"
    by (simp_all add: sponsoredOnlyFields_def)
  have "\<forall>f \<in> set sponsoredOnlyFields.
          js_prop (mergeAttributionData (enrichProductData demo_product) demo_organic) f
            = (if f = ''supplierId'' then Undefined else js_prop demo_product f)"
    using organic_enrichment_keeps_caller_fields [OF h1 h2] by blast
  then have "js_prop (mergeAttributionData (enrichProductData demo_product) demo_organic)
               ''costPerClick'' = Undefined
           \<and> js_prop (mergeAttributionData (enrichProductData demo_product) demo_organic)
               ''supplierId'' = Undefined"
    using m p by fastforce
  then show ?thesis
    using h1 h2 by blast
qed

section \<open>Stored values that are not valid records\<close>

lemma corrupt_keys:
  "mapKey (Str ''SKU1'') True = ''SKU1_s''"
  "storageKey corrupt_sdk (Str ''SKU1'') True = ''pa_attribution_cust1_SKU1_s''"
  "storageKey nonrecord_sdk (Str ''SKU1'') True = ''pa_attribution_cust1_SKU1_s''"
  by (simp_all add: mapKey_def storageKey_def typeSuffix_def corrupt_sdk_def nonrecord_sdk_def
                    demo_config_def)

lemma getStored_unparseable:
  assumes "\<not> read_throws e"
    and "persistent_entry s e (storageKey s q ch) = Some t" and "text_truthy t"
    and "(\<exists>err. JSON_parse t = Inl err) \<or> JSON_parse t = Inr Null"
  shows "getStoredAttribution s e q ch = (None, error_log s ''Failed to retrieve attribution data:'')"
  using assms
  by (auto simp: getStoredAttribution_def persistent_get_eq)

lemma getStored_not_record:
  assumes "\<not> read_throws e"
    and "persistent_entry s e (storageKey s q ch) = Some t" and "text_truthy t"
    and "JSON_parse t = Inr v" and "no_later_expiry v (now e)"
  shows "getStoredAttribution s e q ch = (None, cleanupExpiredAttributionData s e q (Bool ch))"
  using assms
  by (auto simp: getStoredAttribution_def persistent_get_eq no_later_expiry_def
           split: jsval.splits)

lemma getStored_empty:
  assumes "\<not> read_throws e"
    and "persistent_entry s e (storageKey s q ch) = Some t" and "\<not> text_truthy t"
  shows "getStoredAttribution s e q ch = (None, s)"
  using assms
  by (simp add: getStoredAttribution_def persistent_get_eq)

text \<open>
  Claim C8 as the specification states it does not hold: the \<^verbatim>\<open>catch\<close> of
  \<^verbatim>\<open>_getAttributionDataFor\<close> only logs. Here the entry on which \<^verbatim>\<open>JSON.parse\<close> throws
  is still in the persistent store after the read that returned nothing.
\<close>

theorem corrupt_entry_counterexample:
  "persistent_entry corrupt_sdk demo_env (storageKey corrupt_sdk (Str ''SKU1'') True)
     = Some (Malformed ''not-json'')
   \<and> JSON_parse (Malformed ''not-json'') = Inl SyntaxError
   \<and> fst (getAttributionDataFor corrupt_sdk demo_env (Str ''SKU1'') True) = None
   \<and> persistent_entry (snd (getAttributionDataFor corrupt_sdk demo_env (Str ''SKU1'') True)) demo_env
        (storageKey corrupt_sdk (Str ''SKU1'') True) = Some (Malformed ''not-json'')"
proof -
  have r: "\<not> read_throws demo_env" by (simp add: demo_env_def)
  have p: "persistent_entry corrupt_sdk demo_env (storageKey corrupt_sdk (Str ''SKU1'') True)
             = Some (Malformed ''not-json'')"
    by (simp add: corrupt_keys persistent_entry_def uses_localStorage_def)
       (simp add: corrupt_sdk_def demo_config_def demo_env_def)
  have c: "attributionData corrupt_sdk (mapKey (Str ''SKU1'') True) = None"
    by (simp add: corrupt_sdk_def)
  have "getAttributionDataFor corrupt_sdk demo_env (Str ''SKU1'') True
          = (None, error_log corrupt_sdk ''Failed to retrieve attribution data:'')"
    using getStored_unparseable [OF r p] c by (simp add: getAttributionDataFor_def)
  then show ?thesis
    using p by simp
qed

text \<open>
  Claim C8, as amended. Let a read reach the persistent store (the cache entry of the
  key, if there is one, is not live) and find a value there. If the value is a
  non-empty string on which \<^verbatim>\<open>JSON.parse\<close> throws, or the JSON text \<^verbatim>\<open>null\<close>, the
  read returns nothing, logs the failure, and leaves both persistent stores exactly as
  they were: the entry is not deleted. If the value parses to something that is not a
  record with a later \<^verbatim>\<open>expiresAt\<close> (a string, a number, a boolean, an array, or an
  object whose \<^verbatim>\<open>expiresAt\<close> is missing or not after the clock), the read returns
  nothing and, in a session with a customerId and with a removal that works, deletes
  the entry from the cache and from the persistent store without logging. An empty
  value is returned as nothing and left in place.
\<close>

theorem invalid_entry_not_found:
  assumes nr: "\<not> read_throws e"
    and reach: "\<forall>d. attributionData s (mapKey productRefId ch) = Some d
                  \<longrightarrow> \<not> js_gt (js_prop d ''expiresAt'') (now e)"
    and stored: "persistent_entry s e (storageKey s productRefId ch) = Some t"
  shows "(text_truthy t \<and> ((\<exists>err. JSON_parse t = Inl err) \<or> JSON_parse t = Inr Null) \<longrightarrow>
            fst (getAttributionDataFor s e productRefId ch) = None
          \<and> localStorage (snd (getAttributionDataFor s e productRefId ch)) = localStorage s
          \<and> cookie (snd (getAttributionDataFor s e productRefId ch)) = cookie s
          \<and> persistent_entry (snd (getAttributionDataFor s e productRefId ch)) e
               (storageKey s productRefId ch) = Some t
          \<and> attributionData (snd (getAttributionDataFor s e productRefId ch))
               (mapKey productRefId ch) = None
          \<and> console_error (snd (getAttributionDataFor s e productRefId ch))
               = console_error s @ [''Failed to retrieve attribution data:''])
       \<and> (\<forall>v. text_truthy t \<and> JSON_parse t = Inr v \<and> no_later_expiry v (now e) \<longrightarrow>
            fst (getAttributionDataFor s e productRefId ch) = None
          \<and> (truthy (session_customerId s) \<and> \<not> remove_throws e \<and> 0 \<le> now e \<longrightarrow>
               attributionData (snd (getAttributionDataFor s e productRefId ch))
                 (mapKey productRefId ch) = None
             \<and> persistent_entry (snd (getAttributionDataFor s e productRefId ch)) e
                 (storageKey s productRefId ch) = None
             \<and> console_error (snd (getAttributionDataFor s e productRefId ch)) = console_error s))
       \<and> (\<not> text_truthy t \<longrightarrow>
            fst (getAttributionDataFor s e productRefId ch) = None
          \<and> localStorage (snd (getAttributionDataFor s e productRefId ch)) = localStorage s
          \<and> cookie (snd (getAttributionDataFor s e productRefId ch)) = cookie s
          \<and> console_error (snd (getAttributionDataFor s e productRefId ch)) = console_error s)"
proof -
  let ?s1 = "s\<lparr>attributionData := (attributionData s)(mapKey productRefId ch := None)\<rparr>"
  have unf: "getAttributionDataFor s e productRefId ch = getStoredAttribution ?s1 e productRefId ch"
    by (rule getFor_unfold_stale [OF reach])
  have st1: "persistent_entry ?s1 e (storageKey ?s1 productRefId ch) = Some t"
    using stored by simp
  have a: "getAttributionDataFor s e productRefId ch
             = (None, error_log ?s1 ''Failed to retrieve attribution data:'')"
    if "text_truthy t" "(\<exists>err. JSON_parse t = Inl err) \<or> JSON_parse t = Inr Null"
    using getStored_unparseable [OF nr st1 that] unf by simp
  have b: "getAttributionDataFor s e productRefId ch
             = (None, cleanupExpiredAttributionData ?s1 e productRefId (Bool ch))"
    if "text_truthy t" "JSON_parse t = Inr v" "no_later_expiry v (now e)" for v
    using getStored_not_record [OF nr st1 that] unf by simp
  have del: "attributionData (cleanupExpiredAttributionData ?s1 e productRefId (Bool ch))
                 (mapKey productRefId ch) = None
           \<and> persistent_entry (cleanupExpiredAttributionData ?s1 e productRefId (Bool ch)) e
                 (storageKey s productRefId ch) = None
           \<and> console_error (cleanupExpiredAttributionData ?s1 e productRefId (Bool ch))
                 = console_error s"
    if c: "truthy (session_customerId s)" and r: "\<not> remove_throws e" "0 \<le> now e"
  proof -
    have c1: "truthy (session_customerId ?s1)" using c by simp
    have "console_error (cleanupExpiredAttributionData ?s1 e productRefId (Bool ch))
            = console_error s"
      using c cleanupType_effect [OF r, of productRefId ?s1 "Bool ch"]
      by (simp add: cleanupExpiredAttributionData_def)
    then show ?thesis
      using cleanup_Bool_effect [OF c1 r, of productRefId ch] by simp
  qed
  have c: "getAttributionDataFor s e productRefId ch = (None, ?s1)" if "\<not> text_truthy t"
    using getStored_empty [OF nr st1 that] unf by simp
  have p1: "text_truthy t \<and> ((\<exists>err. JSON_parse t = Inl err) \<or> JSON_parse t = Inr Null) \<longrightarrow>
            fst (getAttributionDataFor s e productRefId ch) = None
          \<and> localStorage (snd (getAttributionDataFor s e productRefId ch)) = localStorage s
          \<and> cookie (snd (getAttributionDataFor s e productRefId ch)) = cookie s
          \<and> persistent_entry (snd (getAttributionDataFor s e productRefId ch)) e
               (storageKey s productRefId ch) = Some t
          \<and> attributionData (snd (getAttributionDataFor s e productRefId ch))
               (mapKey productRefId ch) = None
          \<and> console_error (snd (getAttributionDataFor s e productRefId ch))
               = console_error s @ [''Failed to retrieve attribution data:'']"
    using a stored by auto
  have p2: "\<forall>v. text_truthy t \<and> JSON_parse t = Inr v \<and> no_later_expiry v (now e) \<longrightarrow>
            fst (getAttributionDataFor s e productRefId ch) = None
          \<and> (truthy (session_customerId s) \<and> \<not> remove_throws e \<and> 0 \<le> now e \<longrightarrow>
               attributionData (snd (getAttributionDataFor s e productRefId ch))
                 (mapKey productRefId ch) = None
             \<and> persistent_entry (snd (getAttributionDataFor s e productRefId ch)) e
                 (storageKey s productRefId ch) = None
             \<and> console_error (snd (getAttributionDataFor s e productRefId ch)) = console_error s)"
    using b del by auto
  have p3: "\<not> text_truthy t \<longrightarrow>
            fst (getAttributionDataFor s e productRefId ch) = None
          \<and> localStorage (snd (getAttributionDataFor s e productRefId ch)) = localStorage s
          \<and> cookie (snd (getAttributionDataFor s e productRefId ch)) = cookie s
          \<and> console_error (snd (getAttributionDataFor s e productRefId ch)) = console_error s"
    using c by auto
  show ?thesis
    using p1 p2 p3 by blast
qed

theorem invalid_entry_not_found_witness:
  "\<not> read_throws demo_env \<and> \<not> remove_throws demo_env \<and> 0 \<le> now demo_env
   \<and> persistent_entry corrupt_sdk demo_env (storageKey corrupt_sdk (Str ''SKU1'') True)
        = Some (Malformed ''not-json'')
   \<and> text_truthy (Malformed ''not-json'')
   \<and> JSON_parse (Malformed ''not-json'') = Inl SyntaxError
   \<and> fst (getAttributionDataFor corrupt_sdk demo_env (Str ''SKU1'') True) = None
   \<and> localStorage (snd (getAttributionDataFor corrupt_sdk demo_env (Str ''SKU1'') True))
        = localStorage corrupt_sdk
   \<and> console_error (snd (getAttributionDataFor corrupt_sdk demo_env (Str ''SKU1'') True))
        = [''Failed to retrieve attribution data:'']
   \<and> truthy (session_customerId nonrecord_sdk)
   \<and> persistent_entry nonrecord_sdk demo_env (storageKey nonrecord_sdk (Str ''SKU1'') True)
        = Some (Json (Str ''hello''))
   \<and> text_truthy (Json (Str ''hello''))
   \<and> JSON_parse (Json (Str ''hello'')) = Inr (Str ''hello'')
   \<and> no_later_expiry (Str ''hello'') (now demo_env)
   \<and> fst (getAttributionDataFor nonrecord_sdk demo_env (Str ''SKU1'') True) = None
   \<and> persistent_entry (snd (getAttributionDataFor nonrecord_sdk demo_env (Str ''SKU1'') True))
        demo_env (storageKey nonrecord_sdk (Str ''SKU1'') True) = None
   \<and> console_error (snd (getAttributionDataFor nonrecord_sdk demo_env (Str ''SKU1'') True)) = []"
proof -
  have h1: "\<not> read_throws demo_env" "\<not> remove_throws demo_env" "0 \<le> now demo_env"
    by (simp_all add: demo_env_def)
  have h2: "\<forall>d. attributionData corrupt_sdk (mapKey (Str ''SKU1'') True) = Some d
           \<longrightarrow> \<not> js_gt (js_prop d ''expiresAt'') (now demo_env)"
    by (simp add: corrupt_sdk_def)
  have h3: "persistent_entry corrupt_sdk demo_env (storageKey corrupt_sdk (Str ''SKU1'') True)
             = Some (Malformed ''not-json'')"
    by (simp add: corrupt_keys persistent_entry_def uses_localStorage_def)
       (simp add: corrupt_sdk_def demo_config_def demo_env_def)
  have h4: "text_truthy (Malformed ''not-json'')"
    "JSON_parse (Malformed ''not-json'') = Inl SyntaxError"
    by simp_all
  have c: "console_error corrupt_sdk = []" by (simp add: corrupt_sdk_def)
  have g2: "\<forall>d. attributionData nonrecord_sdk (mapKey (Str ''SKU1'') True) = Some d
           \<longrightarrow> \<not> js_gt (js_prop d ''expiresAt'') (now demo_env)"
    by (simp add: nonrecord_sdk_def)
  have g3: "persistent_entry nonrecord_sdk demo_env (storageKey nonrecord_sdk (Str ''SKU1'') True)
             = Some (Json (Str ''hello''))"
    by (simp add: corrupt_keys persistent_entry_def uses_localStorage_def)
       (simp add: nonrecord_sdk_def demo_config_def demo_env_def)
  have g4: "text_truthy (Json (Str ''hello''))"
    "JSON_parse (Json (Str ''hello'')) = Inr (Str ''hello'')"
    "no_later_expiry (Str ''hello'') (now demo_env)"
    by (simp_all add: no_later_expiry_def)
  have g5: "truthy (session_customerId nonrecord_sdk)" "console_error nonrecord_sdk = []"
    by (simp_all add: nonrecord_sdk_def)
  have first: "fst (getAttributionDataFor corrupt_sdk demo_env (Str ''SKU1'') True) = None
     \<and> localStorage (snd (getAttributionDataFor corrupt_sdk demo_env (Str ''SKU1'') True))
        = localStorage corrupt_sdk
     \<and> console_error (snd (getAttributionDataFor corrupt_sdk demo_env (Str ''SKU1'') True))
        = [''Failed to retrieve attribution data:'']"
    using invalid_entry_not_found [OF h1(1) h2 h3] h4 c by simp
  have second: "fst (getAttributionDataFor nonrecord_sdk demo_env (Str ''SKU1'') True) = None
     \<and> persistent_entry (snd (getAttributionDataFor nonrecord_sdk demo_env (Str ''SKU1'') True))
        demo_env (storageKey nonrecord_sdk (Str ''SKU1'') True) = None
     \<and> console_error (snd (getAttributionDataFor nonrecord_sdk demo_env (Str ''SKU1'') True)) = []"
    using invalid_entry_not_found [OF h1(1) g2 g3] g4 g5 h1 by simp
  show ?thesis
    using first second h1 h3 h4 g3 g4 g5 by simp
qed

section \<open>Storing never throws\<close>

lemma attributionRecord_fields:
  "js_prop (attributionRecord s e cd) ''isSponsored'' = js_prop cd ''isSponsored''"
  "js_prop (attributionRecord s e cd) ''expiresAt'' = Num (now e + attributionWindow (config s))"
  "js_prop (attributionRecord s e cd) ''storedAt'' = Num (now e)"
  "js_prop (attributionRecord s e cd) ''clickId'' = js_prop cd ''clickId''"
  by (simp_all add: attributionRecord_def js_prop_def)


lemma js_gt_Num [simp]: "js_gt (Num x) t \<longleftrightarrow> t < x"
  by (simp add: js_gt_def)




section \<open>Storing a click\<close>

lemma attributionRecord_config:
  "config s' = config s \<Longrightarrow> attributionRecord s' e cd = attributionRecord s e cd"
  by (simp add: attributionRecord_def)

lemma attributionRecord_copies:
  "f \<in> set copiedFields \<Longrightarrow> js_prop (attributionRecord s e cd) f = js_prop cd f"
  by (auto simp: copiedFields_def attributionRecord_def js_prop_def)

lemma persistent_set_frame:
  "persistent_set s e K v x = Inr s' \<Longrightarrow>
     config s' = config s \<and> session_customerId s' = session_customerId s
     \<and> pendingEvents s' = pendingEvents s \<and> attributionData s' = attributionData s
     \<and> console_error s' = console_error s
     \<and> (\<forall>e2 K'. K' \<noteq> K \<longrightarrow> persistent_entry s' e2 K' = persistent_entry s e2 K')"
  by (auto simp: persistent_set_def persistent_entry_def uses_localStorage_def setCookie_def
           split: if_splits)

lemma persistent_set_ok:
  assumes "write_kept s e v x"
  shows "\<exists>s'. persistent_set s e K v x = Inr s' \<and> persistent_entry s' e K = Some v"
  using assms
  by (auto simp: write_kept_def persistent_set_def persistent_entry_def uses_localStorage_def
                 setCookie_def)

lemma persistent_set_cookie:
  assumes "\<not> write_throws e" "\<not> uses_localStorage s e" "now e < toUTCString x"
  shows "\<exists>s'. persistent_set s e K v x = Inr s' \<and> cookie s' K = Some (cookie_value v)"
  using assms
  by (auto simp: persistent_set_def setCookie_def)

lemma persistent_set_same:
  assumes "persistent_set s e K v x = Inr s'" and "persistent_set t e K v x = Inr t'"
    and "config t = config s"
  shows "persistent_entry s' e K = persistent_entry t' e K"
  using assms
  by (auto simp: persistent_set_def persistent_entry_def uses_localStorage_def setCookie_def
           split: if_splits)

lemma store_frame:
  assumes "truthy (session_customerId s)" "truthy q"
    and "storeAttributionData s e q cd = (res, s')"
  shows "config s' = config s \<and> session_customerId s' = session_customerId s
     \<and> pendingEvents s' = pendingEvents s
     \<and> attributionData s'
          = (attributionData s)(mapKey q (truthy (js_prop cd ''isSponsored'')) \<mapsto> attributionRecord s e cd)
     \<and> (\<forall>e2 K'. K' \<noteq> storageKey s q (truthy (js_prop cd ''isSponsored''))
            \<longrightarrow> persistent_entry s' e2 K' = persistent_entry s e2 K')"
proof -
  let ?ch = "truthy (js_prop cd ''isSponsored'')"
  let ?s1 = "s\<lparr>attributionData := (attributionData s)(mapKey q ?ch \<mapsto> attributionRecord s e cd)\<rparr>"
  let ?w = "persistent_set ?s1 e (storageKey s q ?ch) (JSON_stringify (Obj (attributionRecord s e cd)))
              (now e + attributionWindow (config s))"
  show ?thesis
  proof (cases ?w)
    case (Inl err)
    then have "s' = error_log ?s1 ''Failed to store attribution data:''"
      using assms by (simp add: storeAttributionData_def Let_def)
    then show ?thesis
      by simp
  next
    case (Inr s2)
    then have "s' = s2"
      using assms by (simp add: storeAttributionData_def Let_def)
    then show ?thesis
      using persistent_set_frame [OF Inr]
      by simp
  qed
qed

text \<open>The persistent write of a store call that passes the guard and does not throw.\<close>

lemma store_written:
  assumes "truthy (session_customerId s)" "truthy q" "\<not> write_throws e"
  shows "persistent_set
           (s\<lparr>attributionData := (attributionData s)
                 (mapKey q (truthy (js_prop cd ''isSponsored'')) \<mapsto> attributionRecord s e cd)\<rparr>)
           e (storageKey s q (truthy (js_prop cd ''isSponsored'')))
           (JSON_stringify (Obj (attributionRecord s e cd))) (now e + attributionWindow (config s))
         = Inr (snd (storeAttributionData s e q cd))"
  using assms by (simp add: storeAttributionData_def Let_def persistent_set_def)

lemma store_ok:
  assumes "truthy (session_customerId s)" "truthy q"
    and "write_kept s e (JSON_stringify (Obj (attributionRecord s e cd)))
           (now e + attributionWindow (config s))"
  shows "persistent_entry (snd (storeAttributionData s e q cd)) e
           (storageKey s q (truthy (js_prop cd ''isSponsored'')))
         = Some (JSON_stringify (Obj (attributionRecord s e cd)))"
proof -
  let ?ch = "truthy (js_prop cd ''isSponsored'')"
  let ?s1 = "s\<lparr>attributionData := (attributionData s)(mapKey q ?ch \<mapsto> attributionRecord s e cd)\<rparr>"
  have nw: "\<not> write_throws e"
    using assms(3) by (simp add: write_kept_def)
  have k: "write_kept ?s1 e (JSON_stringify (Obj (attributionRecord s e cd)))
             (now e + attributionWindow (config s))"
    using assms(3) by (simp add: write_kept_def uses_localStorage_def)
  show ?thesis
    using persistent_set_ok [OF k, of "storageKey s q ?ch"] store_written [OF assms(1,2) nw, of cd]
    by auto
qed

lemma store_cookie:
  assumes "truthy (session_customerId s)" "truthy q" "\<not> write_throws e"
    and "\<not> uses_localStorage s e"
    and "now e < toUTCString (now e + attributionWindow (config s))"
  shows "cookie (snd (storeAttributionData s e q cd))
           (storageKey s q (truthy (js_prop cd ''isSponsored'')))
         = Some (cookie_value (JSON_stringify (Obj (attributionRecord s e cd))))"
proof -
  let ?ch = "truthy (js_prop cd ''isSponsored'')"
  let ?s1 = "s\<lparr>attributionData := (attributionData s)(mapKey q ?ch \<mapsto> attributionRecord s e cd)\<rparr>"
  have u: "\<not> uses_localStorage ?s1 e"
    using assms(4) by (simp add: uses_localStorage_def)
  show ?thesis
    using persistent_set_cookie [OF assms(3) u assms(5), where K = "storageKey s q ?ch"
        and v = "JSON_stringify (Obj (attributionRecord s e cd))"]
      store_written [OF assms(1,2,3), of cd]
    by auto
qed

text \<open>
  Two successive \<^verbatim>\<open>_storeAttributionData\<close> calls for the same product and channel, in
  a session with a customerId, the second with a persistent write that does not throw.
  The cache entry of the key is the second record, whose copied fields are those of
  the second click; the cache and the persistent store are what the second call alone
  would have produced, so nothing of the first record remains; and the persistent
  entry is the JSON text of the second record whenever the store keeps what is written.
\<close>

lemma store_overwrites:
  assumes cust: "truthy (session_customerId s)" and ref: "truthy productRefId"
    and same: "truthy (js_prop first ''isSponsored'') = truthy (js_prop second ''isSponsored'')"
    and ok: "\<not> write_throws e2"
    and run1: "storeAttributionData s e1 productRefId first = (r1, s1)"
    and run2: "storeAttributionData s1 e2 productRefId second = (r2, s2)"
  shows "attributionData s2 (mapKey productRefId (truthy (js_prop second ''isSponsored'')))
           = Some (attributionRecord s e2 second)
       \<and> (\<forall>f \<in> set copiedFields. js_prop (attributionRecord s e2 second) f = js_prop second f)
       \<and> js_prop (attributionRecord s e2 second) ''storedAt'' = Num (now e2)
       \<and> js_prop (attributionRecord s e2 second) ''expiresAt''
           = Num (now e2 + attributionWindow (config s))
       \<and> attributionData s2 = attributionData (snd (storeAttributionData s e2 productRefId second))
       \<and> persistent_entry s2 e2
           = persistent_entry (snd (storeAttributionData s e2 productRefId second)) e2
       \<and> (write_kept s e2 (JSON_stringify (Obj (attributionRecord s e2 second)))
             (now e2 + attributionWindow (config s)) \<longrightarrow>
            persistent_entry s2 e2
              (storageKey s productRefId (truthy (js_prop second ''isSponsored'')))
             = Some (JSON_stringify (Obj (attributionRecord s e2 second))))"
proof -
  let ?ch = "truthy (js_prop second ''isSponsored'')"
  let ?k = "mapKey productRefId ?ch"
  let ?K = "storageKey s productRefId ?ch"
  let ?r = "attributionRecord s e2 second"
  obtain r0 s0 where run0: "storeAttributionData s e2 productRefId second = (r0, s0)"
    by (cases "storeAttributionData s e2 productRefId second")
  note f1 = store_frame [OF cust ref run1]
  have cust1: "truthy (session_customerId s1)" using f1 cust by simp
  have cfg1: "config s1 = config s" using f1 by simp
  have key1: "storageKey s1 = storageKey s"
    using f1 by (intro storageKey_same) simp_all
  have rec1: "attributionRecord s1 e2 second = ?r"
    using cfg1 by (rule attributionRecord_config)
  note f2 = store_frame [OF cust1 ref run2]
  note f0 = store_frame [OF cust ref run0]
  have w2: "persistent_set (s1\<lparr>attributionData := (attributionData s1)(?k \<mapsto> ?r)\<rparr>) e2 ?K
              (JSON_stringify (Obj ?r)) (now e2 + attributionWindow (config s)) = Inr s2"
    using store_written [OF cust1 ref ok, of second] run2 by (simp add: key1 rec1 cfg1)
  have w0: "persistent_set (s\<lparr>attributionData := (attributionData s)(?k \<mapsto> ?r)\<rparr>) e2 ?K
              (JSON_stringify (Obj ?r)) (now e2 + attributionWindow (config s)) = Inr s0"
    using store_written [OF cust ref ok, of second] run0 by simp
  have at_key: "persistent_entry s2 e2 ?K = persistent_entry s0 e2 ?K"
    by (rule persistent_set_same [OF w2 w0]) (simp add: cfg1)
  have c2: "attributionData s2 = (attributionData s)(?k \<mapsto> ?r)"
    using f1 f2 same by (simp add: rec1)
  have c0: "attributionData s0 = (attributionData s)(?k \<mapsto> ?r)"
    using f0 by simp
  have p: "persistent_entry s2 e2 K' = persistent_entry s0 e2 K'" for K'
  proof (cases "K' = ?K")
    case True
    then show ?thesis using at_key by simp
  next
    case False
    then have "persistent_entry s2 e2 K' = persistent_entry s1 e2 K'"
      using f2 by (simp add: key1)
    also have "\<dots> = persistent_entry s e2 K'"
      using f1 False same by simp
    also have "\<dots> = persistent_entry s0 e2 K'"
      using f0 False by simp
    finally show ?thesis .
  qed
  have kept: "persistent_entry s2 e2 ?K = Some (JSON_stringify (Obj ?r))"
    if "write_kept s e2 (JSON_stringify (Obj ?r)) (now e2 + attributionWindow (config s))"
    using store_ok [OF cust ref that] run0 at_key by simp
  have fields: "\<forall>f \<in> set copiedFields. js_prop ?r f = js_prop second f"
    by (simp add: attributionRecord_copies)
  show ?thesis
    using c2 c0 p run0 kept fields by (simp add: fun_eq_iff attributionRecord_fields)
qed

lemma cookie_keys:
  "mapKey (Str ''SKU1'') True = ''SKU1_s''"
  "storageKey cookie_sdk (Str ''SKU1'') True = ''pa_attribution_cust1_SKU1_s''"
  "storageKey cookie_sdk (Str ''SKU1'') False = ''pa_attribution_cust1_SKU1_o''"
  by (simp_all add: mapKey_def storageKey_def typeSuffix_def cookie_sdk_def)

text \<open>
  Claim C6. On the cookie backend (the default) the claim fails where the second click
  carries a \<^verbatim>\<open>;\<close> in one of its strings, such as the address of its page.
  \<^verbatim>\<open>_setCookie\<close> assigns the JSON text to \<^verbatim>\<open>document.cookie\<close> without encoding it,
  so the browser keeps the text only up to the \<^verbatim>\<open>;\<close>. After the two calls the cache
  holds the second record, but the cookie of the key holds a cut text on which
  \<^verbatim>\<open>JSON.parse\<close> throws: the persistent store has the data of neither record, and
  once the cache is gone (the next page load) a read of the channel returns nothing.
\<close>

theorem cookie_overwrite_cuts_record:
  assumes cust: "truthy (session_customerId s)" and ref: "truthy productRefId"
    and same: "truthy (js_prop first ''isSponsored'') = truthy (js_prop second ''isSponsored'')"
    and nw: "\<not> write_throws e2" and nr: "\<not> read_throws e2"
    and ck: "\<not> uses_localStorage s e2"
    and future: "now e2 < toUTCString (now e2 + attributionWindow (config s))"
    and semi: "has_semicolon (json_value (Obj (attributionRecord s e2 second)))"
    and run1: "storeAttributionData s e1 productRefId first = (r1, s1)"
    and run2: "storeAttributionData s1 e2 productRefId second = (r2, s2)"
  shows "attributionData s2 (mapKey productRefId (truthy (js_prop second ''isSponsored'')))
           = Some (attributionRecord s e2 second)
       \<and> cookie s2 (storageKey s productRefId (truthy (js_prop second ''isSponsored'')))
           = Some (Cut (json_value (Obj (attributionRecord s e2 second))))
       \<and> persistent_entry s2 e2 (storageKey s productRefId (truthy (js_prop second ''isSponsored'')))
           \<noteq> Some (JSON_stringify (Obj (attributionRecord s e2 second)))
       \<and> JSON_parse (Cut (json_value (Obj (attributionRecord s e2 second)))) = Inl SyntaxError
       \<and> fst (getAttributionDataFor (s2\<lparr>attributionData := Map.empty\<rparr>) e2 productRefId
                (truthy (js_prop second ''isSponsored''))) = None"
proof -
  let ?ch = "truthy (js_prop second ''isSponsored'')"
  let ?K = "storageKey s productRefId ?ch"
  let ?r = "attributionRecord s e2 second"
  let ?s3 = "s2\<lparr>attributionData := Map.empty\<rparr>"
  note f1 = store_frame [OF cust ref run1]
  have cust1: "truthy (session_customerId s1)" using f1 cust by simp
  have cfg1: "config s1 = config s" using f1 by simp
  have key1: "storageKey s1 = storageKey s"
    using f1 by (intro storageKey_same) simp_all
  have rec1: "attributionRecord s1 e2 second = ?r"
    using cfg1 by (rule attributionRecord_config)
  note f2 = store_frame [OF cust1 ref run2]
  have key2: "storageKey s2 = storageKey s1"
    using f2 by (intro storageKey_same) simp_all
  have ck1: "\<not> uses_localStorage s1 e2"
    using ck cfg1 by (simp add: uses_localStorage_def)
  have ck2: "\<not> uses_localStorage s2 e2"
    using ck1 f2 by (simp add: uses_localStorage_def)
  have cache: "attributionData s2 (mapKey productRefId ?ch) = Some ?r"
    using f2 by (simp add: rec1)
  have "cookie s2 ?K = Some (cookie_value (JSON_stringify (Obj ?r)))"
    using store_cookie [OF cust1 ref nw ck1, of second] future run2
    by (simp add: key1 rec1 cfg1)
  then have cut: "cookie s2 ?K = Some (Cut (json_value (Obj ?r)))"
    using semi by (simp add: JSON_stringify_def)
  have pe: "persistent_entry s2 e2 ?K = Some (Cut (json_value (Obj ?r)))"
    using cut ck2 by (simp only: persistent_entry_def if_False)
  have st3: "persistent_entry ?s3 e2 (storageKey ?s3 productRefId ?ch)
               = Some (Cut (json_value (Obj ?r)))"
    using pe by (simp add: key2 key1)
  have "getStoredAttribution ?s3 e2 productRefId ?ch
          = (None, error_log ?s3 ''Failed to retrieve attribution data:'')"
    by (rule getStored_unparseable [OF nr st3]) simp_all
  then have "fst (getAttributionDataFor ?s3 e2 productRefId ?ch) = None"
    by (simp add: getAttributionDataFor_def)
  then show ?thesis
    using cache cut pe by (simp add: JSON_stringify_def)
qed

text \<open>
  An instance: two sponsored clicks on SKU1, the second on a page whose address
  contains a \<^verbatim>\<open>;\<close>. With cookies the second record is cut and the next page load
  resolves nothing for the product; with \<^verbatim>\<open>localStorage\<close> the same two calls keep the
  second record.
\<close>

theorem cookie_overwrite_cuts_record_witness:
  "storageType (config cookie_sdk) = ''cookie''
   \<and> js_prop semicolon_click ''currentUrl'' = Str ''https://shop.example/p;v=2''
   \<and> attributionData
        (snd (storeAttributionData
                (snd (storeAttributionData cookie_sdk demo_env (Str ''SKU1'') first_click))
                later_env (Str ''SKU1'') semicolon_click)) ''SKU1_s''
       = Some (attributionRecord cookie_sdk later_env semicolon_click)
   \<and> js_prop (attributionRecord cookie_sdk later_env semicolon_click) ''clickId'' = Str ''C2''
   \<and> cookie
        (snd (storeAttributionData
                (snd (storeAttributionData cookie_sdk demo_env (Str ''SKU1'') first_click))
                later_env (Str ''SKU1'') semicolon_click)) ''pa_attribution_cust1_SKU1_s''
       = Some (Cut (json_value (Obj (attributionRecord cookie_sdk later_env semicolon_click))))
   \<and> JSON_parse (Cut (json_value (Obj (attributionRecord cookie_sdk later_env semicolon_click))))
       = Inl SyntaxError
   \<and> fst (getAttributionData
            ((snd (storeAttributionData
                     (snd (storeAttributionData cookie_sdk demo_env (Str ''SKU1'') first_click))
                     later_env (Str ''SKU1'') semicolon_click))
               \<lparr>attributionData := Map.empty\<rparr>)
            later_env (Str ''SKU1'')) = None
   \<and> localStorage
        (snd (storeAttributionData
                (snd (storeAttributionData empty_sdk demo_env (Str ''SKU1'') first_click))
                later_env (Str ''SKU1'') semicolon_click)) ''pa_attribution_cust1_SKU1_s''
       = Some (Json (json_value (Obj (attributionRecord empty_sdk later_env semicolon_click))))"
proof -
  let ?s1 = "snd (storeAttributionData cookie_sdk demo_env (Str ''SKU1'') first_click)"
  let ?s2 = "snd (storeAttributionData ?s1 later_env (Str ''SKU1'') semicolon_click)"
  let ?r = "attributionRecord cookie_sdk later_env semicolon_click"
  let ?s3 = "?s2\<lparr>attributionData := Map.empty\<rparr>"
  have cust: "truthy (session_customerId cookie_sdk)" and ref: "truthy (Str ''SKU1'')"
    by (simp_all add: cookie_sdk_def)
  have sp: "truthy (js_prop first_click ''isSponsored'')"
    "truthy (js_prop semicolon_click ''isSponsored'')"
    by (simp_all add: first_click_def semicolon_click_def js_prop_def)
  have same: "truthy (js_prop first_click ''isSponsored'')
                = truthy (js_prop semicolon_click ''isSponsored'')"
    using sp by simp
  have env: "\<not> write_throws later_env" "\<not> read_throws later_env"
    by (simp_all add: later_env_def demo_env_def)
  have nl: "\<not> uses_localStorage cookie_sdk later_env"
    by (simp add: uses_localStorage_def cookie_sdk_def)
  have future: "now later_env < toUTCString (now later_env + attributionWindow (config cookie_sdk))"
    by (simp add: cookie_sdk_def toUTCString_def later_env_def demo_env_def)
  have semi: "has_semicolon (json_value (Obj ?r))"
    by (simp add: attributionRecord_def semicolon_click_def js_prop_def)
  have run1: "storeAttributionData cookie_sdk demo_env (Str ''SKU1'') first_click
                = (fst (storeAttributionData cookie_sdk demo_env (Str ''SKU1'') first_click), ?s1)"
    by simp
  have run2: "storeAttributionData ?s1 later_env (Str ''SKU1'') semicolon_click
                = (fst (storeAttributionData ?s1 later_env (Str ''SKU1'') semicolon_click), ?s2)"
    by simp
  note t = cookie_overwrite_cuts_record [OF cust ref same env nl future semi run1 run2]
  have cache: "attributionData ?s2 ''SKU1_s'' = Some ?r"
    using t sp by (simp add: cookie_keys)
  have cut: "cookie ?s2 ''pa_attribution_cust1_SKU1_s'' = Some (Cut (json_value (Obj ?r)))"
    using t sp by (simp add: cookie_keys)
  have g1: "fst (getAttributionDataFor ?s3 later_env (Str ''SKU1'') True) = None"
    using t sp by simp
  note f1 = store_frame [OF cust ref run1]
  have cust1: "truthy (session_customerId ?s1)" using f1 cust by simp
  have key1: "storageKey ?s1 = storageKey cookie_sdk"
    using f1 by (intro storageKey_same) simp_all
  note f2 = store_frame [OF cust1 ref run2]
  have key2: "storageKey ?s2 = storageKey ?s1"
    using f2 by (intro storageKey_same) simp_all
  have cust3: "truthy (session_customerId ?s3)" using f2 cust1 by simp
  have other: "persistent_entry ?s2 later_env ''pa_attribution_cust1_SKU1_o'' = None"
  proof -
    have "persistent_entry ?s2 later_env ''pa_attribution_cust1_SKU1_o''
            = persistent_entry ?s1 later_env ''pa_attribution_cust1_SKU1_o''"
      using f2 sp by (simp add: key1 cookie_keys)
    also have "\<dots> = persistent_entry cookie_sdk later_env ''pa_attribution_cust1_SKU1_o''"
      using f1 sp by (simp add: cookie_keys)
    also have "\<dots> = None"
      by (simp add: persistent_entry_def cookie_sdk_def)
    finally show ?thesis .
  qed
  obtain s4 where g1': "getAttributionDataFor ?s3 later_env (Str ''SKU1'') True = (None, s4)"
    using g1 by (metis prod.collapse)
  note f3 = getFor_frame [OF g1']
  have same4: "attributionData s4 (mapKey (Str ''SKU1'') False)
                 = attributionData ?s3 (mapKey (Str ''SKU1'') False)
             \<and> persistent_entry s4 later_env (storageKey ?s3 (Str ''SKU1'') False)
                 = persistent_entry ?s3 later_env (storageKey ?s3 (Str ''SKU1'') False)
             \<and> session_customerId s4 = session_customerId ?s3
             \<and> storageKey s4 = storageKey ?s3"
    by (rule frame_at [OF f3]) (simp_all add: storageKey_eq)
  have "no_entry s4 later_env (Str ''SKU1'') False"
    using same4 other by (simp add: no_entry_def key2 key1 cookie_keys)
  then have g2: "getAttributionDataFor s4 later_env (Str ''SKU1'') False = (None, s4)"
    by (rule getFor_no_entry [OF env(2)])
  have lost: "fst (getAttributionData ?s3 later_env (Str ''SKU1'')) = None"
    using cust3 g1' g2 by (simp add: getAttributionData_def)
  have ls: "localStorage
        (snd (storeAttributionData
                (snd (storeAttributionData empty_sdk demo_env (Str ''SKU1'') first_click))
                later_env (Str ''SKU1'') semicolon_click)) ''pa_attribution_cust1_SKU1_s''
       = Some (Json (json_value (Obj (attributionRecord empty_sdk later_env semicolon_click))))"
    by (simp add: storeAttributionData_def Let_def persistent_set_def uses_localStorage_def
                  empty_sdk_def demo_config_def demo_env_def later_env_def sp storageKey_def
                  typeSuffix_def JSON_stringify_def attributionRecord_def)
  show ?thesis
    using cache cut lost ls
    by (simp add: attributionRecord_fields) (simp add: cookie_sdk_def semicolon_click_def js_prop_def)
qed

section \<open>Click tracking\<close>


lemma persistent_entry_pending [simp]:
  "persistent_entry (s\<lparr>pendingEvents := p\<rparr>) e = persistent_entry s e"
  by (rule ext) (simp add: persistent_entry_def uses_localStorage_def)







section \<open>Consumption on purchase\<close>



















end
